theory Spec2Isabelle
  imports Complex_Main "HOL-Library.Word"
begin

section \<open>JavaScript strings\<close>

text \<open>
  A JavaScript string is a sequence of UTF-16 code units, and \<open>length\<close> counts code
  units. String literals of the sources are ASCII and are embedded with \<open>ascii\<close>.
\<close>

type_synonym jsstring = "16 word list"

definition ascii :: "string \<Rightarrow> jsstring" where
  "ascii s = map (\<lambda>c. of_nat (of_char c)) s"

text \<open>
  \<open>String.prototype.trim\<close> removes the white space and line terminator code units of
  ECMAScript from both ends.
\<close>

definition is_space :: "16 word \<Rightarrow> bool" where
  "is_space c \<longleftrightarrow>
     c \<in> set [0x0009, 0x000A, 0x000B, 0x000C, 0x000D, 0x0020, 0x00A0, 0x1680,
               0x2028, 0x2029, 0x202F, 0x205F, 0x3000, 0xFEFF]
     \<or> (0x2000 \<le> c \<and> c \<le> 0x200A)"

definition trim :: "jsstring \<Rightarrow> jsstring" where
  "trim s = rev (dropWhile is_space (rev (dropWhile is_space s)))"

text \<open>
  \<open>encodeURIComponent\<close> throws a URIError on a string with a lone surrogate; it
  succeeds exactly on well-formed UTF-16.
\<close>

definition is_high :: "16 word \<Rightarrow> bool" where
  "is_high c \<longleftrightarrow> 0xD800 \<le> c \<and> c \<le> 0xDBFF"

definition is_low :: "16 word \<Rightarrow> bool" where
  "is_low c \<longleftrightarrow> 0xDC00 \<le> c \<and> c \<le> 0xDFFF"

fun well_formed :: "jsstring \<Rightarrow> bool" where
  "well_formed [] = True"
| "well_formed [c] = (\<not> is_high c \<and> \<not> is_low c)"
| "well_formed (c # d # cs) =
     (if is_high c then is_low d \<and> well_formed cs
      else \<not> is_low c \<and> well_formed (d # cs))"

section \<open>JavaScript numbers\<close>

text \<open>
  A Number is an IEEE 754 binary64 value: not-a-number, an infinity (\<open>Infinity True\<close>
  is the positive one), or a finite double, given by its exact rational value. The sign
  of zero is not tracked: no modelled path divides by a zero, and both zeros print as 0.
\<close>

datatype jsnum = NaN | Infinity bool | Fin rat

function ilog2 :: "int \<Rightarrow> int" where
  "ilog2 n = (if n < 2 then 0 else 1 + ilog2 (n div 2))"
  by pat_completeness auto
termination
  by (relation "measure nat") auto

declare ilog2.simps [simp del]

definition pow2 :: "int \<Rightarrow> rat" where
  "pow2 k = (if 0 \<le> k then 2 ^ nat k else 1 / 2 ^ nat (- k))"

text \<open>\<open>exponent a\<close> is the integer \<open>k\<close> with \<open>2 ^ k \<le> a < 2 ^ (k + 1)\<close>, for \<open>a > 0\<close>.\<close>

definition exponent :: "rat \<Rightarrow> int" where
  "exponent a =
    (if 1 \<le> a then ilog2 \<lfloor>a\<rfloor>
     else (let m = ilog2 \<lfloor>1 / a\<rfloor> in if 1 / a = pow2 m then - m else - m - 1))"

definition round_even :: "rat \<Rightarrow> int" where
  "round_even q =
    (let f = \<lfloor>q\<rfloor>; r = q - of_int f
     in if r < 1 / 2 then f else if 1 / 2 < r then f + 1 else if even f then f else f + 1)"

text \<open>
  \<open>fl q\<close> is the double nearest to the real number \<open>q\<close> (round to nearest, ties to
  even): 53 significant bits, subnormals below \<open>2 ^ - 1022\<close>, and an infinity when the
  rounded magnitude \<open>m * 2 ^ e\<close> reaches \<open>2 ^ 1024\<close>, which is when \<open>e\<close> is above
  971, or is 971 and \<open>m\<close> was rounded up to \<open>2 ^ 53\<close>. Every arithmetic operation of
  JavaScript returns \<open>fl\<close> of the exact result.
\<close>

definition fl :: "rat \<Rightarrow> jsnum" where
  "fl q =
    (if q = 0 then Fin 0
     else (let a = \<bar>q\<bar>;
               e = max (exponent a - 52) (- 1074);
               m = round_even (a / pow2 e)
           in if 971 < e \<or> (e = 971 \<and> 9007199254740992 \<le> m) then Infinity (0 < q)
              else Fin (if 0 < q then of_int m * pow2 e else - (of_int m * pow2 e))))"



fun js_add :: "jsnum \<Rightarrow> jsnum \<Rightarrow> jsnum" where
  "js_add NaN _ = NaN"
| "js_add _ NaN = NaN"
| "js_add (Infinity s) (Infinity t) = (if s = t then Infinity s else NaN)"
| "js_add (Infinity s) (Fin b) = Infinity s"
| "js_add (Fin a) (Infinity t) = Infinity t"
| "js_add (Fin a) (Fin b) = fl (a + b)"


fun js_mul :: "jsnum \<Rightarrow> jsnum \<Rightarrow> jsnum" where
  "js_mul NaN _ = NaN"
| "js_mul _ NaN = NaN"
| "js_mul (Infinity s) (Infinity t) = Infinity (s = t)"
| "js_mul (Infinity s) (Fin b) = (if b = 0 then NaN else Infinity (s = (0 < b)))"
| "js_mul (Fin a) (Infinity t) = (if a = 0 then NaN else Infinity (t = (0 < a)))"
| "js_mul (Fin a) (Fin b) = fl (a * b)"

fun js_div :: "jsnum \<Rightarrow> jsnum \<Rightarrow> jsnum" where
  "js_div NaN _ = NaN"
| "js_div _ NaN = NaN"
| "js_div (Infinity s) (Infinity t) = NaN"
| "js_div (Infinity s) (Fin b) = Infinity (s = (0 \<le> b))"
| "js_div (Fin a) (Infinity t) = Fin 0"
| "js_div (Fin a) (Fin b) =
     (if b = 0 then (if a = 0 then NaN else Infinity (0 < a)) else fl (a / b))"

text \<open>
  \<open>Math.round\<close>: the nearest integer, a tie going towards plus infinity.
  \<open>Math.min\<close>: not-a-number when either argument is.
  \<open>js_gt x y\<close> is the comparison \<open>x > y\<close>, false when either side is not-a-number.
\<close>

fun js_round :: "jsnum \<Rightarrow> jsnum" where
  "js_round (Fin q) = Fin (of_int \<lfloor>q + 1 / 2\<rfloor>)"
| "js_round x = x"

fun js_gt :: "jsnum \<Rightarrow> jsnum \<Rightarrow> bool" where
  "js_gt NaN _ = False"
| "js_gt _ NaN = False"
| "js_gt (Infinity s) (Infinity t) = (s \<and> \<not> t)"
| "js_gt (Infinity s) (Fin b) = s"
| "js_gt (Fin a) (Infinity t) = (\<not> t)"
| "js_gt (Fin a) (Fin b) = (b < a)"

fun js_min :: "jsnum \<Rightarrow> jsnum \<Rightarrow> jsnum" where
  "js_min NaN _ = NaN"
| "js_min _ NaN = NaN"
| "js_min x y = (if js_gt x y then y else x)"

text \<open>A Number is falsy when it is zero or not-a-number.\<close>

fun truthy_num :: "jsnum \<Rightarrow> bool" where
  "truthy_num NaN = False"
| "truthy_num (Infinity s) = True"
| "truthy_num (Fin a) = (a \<noteq> 0)"








section \<open>JavaScript values\<close>

text \<open>
  The values a parsed JSON body or a script variable can hold. An object is the list of
  its own properties, each key once.
\<close>

datatype jsval =
    JUndefined
  | JNull
  | JBool bool
  | JNum jsnum
  | JStr jsstring
  | JArr "jsval list"
  | JObj "(jsstring \<times> jsval) list"

datatype jserror =
    TypeError
  | SyntaxError
  | URIError
  | FetchFailed
  | NetworkErrorMessage

fun truthy :: "jsval \<Rightarrow> bool" where
  "truthy JUndefined = False"
| "truthy JNull = False"
| "truthy (JBool b) = b"
| "truthy (JNum n) = truthy_num n"
| "truthy (JStr s) = (s \<noteq> [])"
| "truthy (JArr xs) = True"
| "truthy (JObj kvs) = True"

text \<open>\<open>js_or a b\<close> is \<open>a || b\<close>.\<close>

definition js_or :: "jsval \<Rightarrow> jsval \<Rightarrow> jsval" where
  "js_or a b = (if truthy a then a else b)"

text \<open>
  \<open>get_prop v k\<close> is the property read \<open>v.k\<close>, for the data property names the
  scripts read (none of them is a property of the String, Number, Boolean or Array
  prototypes): a TypeError on undefined and null, the own property of an object,
  undefined otherwise.
\<close>

fun get_prop :: "jsval \<Rightarrow> string \<Rightarrow> jserror + jsval" where
  "get_prop JUndefined k = Inl TypeError"
| "get_prop JNull k = Inl TypeError"
| "get_prop (JObj kvs) k =
     Inr (case map_of kvs (ascii k) of None \<Rightarrow> JUndefined | Some v \<Rightarrow> v)"
| "get_prop v k = Inr JUndefined"

text \<open>\<open>v.length\<close>, and \<open>v[0]\<close> on an array.\<close>

fun get_length :: "jsval \<Rightarrow> jserror + jsval" where
  "get_length JUndefined = Inl TypeError"
| "get_length JNull = Inl TypeError"
| "get_length (JStr s) = Inr (JNum (Fin (of_nat (length s))))"
| "get_length (JArr xs) = Inr (JNum (Fin (of_nat (length xs))))"
| "get_length (JObj kvs) =
     Inr (case map_of kvs (ascii ''length'') of None \<Rightarrow> JUndefined | Some v \<Rightarrow> v)"
| "get_length v = Inr JUndefined"

fun isArray :: "jsval \<Rightarrow> bool" where
  "isArray (JArr xs) = True"
| "isArray v = False"

fun first_element :: "jsval list \<Rightarrow> jsval" where
  "first_element [] = JUndefined"
| "first_element (x # xs) = x"

definition bindE :: "jserror + 'a \<Rightarrow> ('a \<Rightarrow> jserror + 'b) \<Rightarrow> jserror + 'b" where
  "bindE m f = (case m of Inl e \<Rightarrow> Inl e | Inr x \<Rightarrow> f x)"

text \<open>
  \<open>ToNumber\<close> on the primitives; on strings, arrays and objects it is the engine's
  conversion, a parameter of the model.
\<close>

fun to_number :: "(jsval \<Rightarrow> jsnum) \<Rightarrow> jsval \<Rightarrow> jsnum" where
  "to_number conv (JNum n) = n"
| "to_number conv JUndefined = NaN"
| "to_number conv JNull = Fin 0"
| "to_number conv (JBool b) = Fin (if b then 1 else 0)"
| "to_number conv v = conv v"

text \<open>
  Text the scripts build, kept symbolic: a literal of the source, a string value, the
  string conversion of a value, a value as the DOM renders it when assigned to a text
  property, a concatenation, \<open>JSON.stringify\<close> of an object literal,
  \<open>encodeURIComponent\<close> of a string, the message of a caught error, and the HTML a
  named template of the source renders for its data.
\<close>

datatype jstext =
    Lit string
  | Chars jsstring
  | ToString jsval
  | OfValue jsval
  | Cat jstext jstext
  | Stringify "(string \<times> jsval) list"
  | UriComponent jsstring
  | MessageOf jserror
  | Rendered string jsval

section \<open>The configuration resolver (config script, part 001)\<close>

record features =
  AI_ENABLED :: bool
  DEBUG_MODE :: bool
  ANALYTICS :: bool
  SERVICE_WORKER :: bool

record timeouts =
  DEFAULT :: nat
  UPLOAD :: nat
  AI_REQUEST :: nat

record storage_keys =
  JWT_TOKEN :: string
  USER_PREFERENCES :: string
  THEME :: string

record config =
  ENVIRONMENT :: string
  API_BASE_URL :: string
  FRONTEND_URL :: string
  FEATURES :: features
  TIMEOUTS :: timeouts
  STORAGE_KEYS :: storage_keys

text \<open>
  \<open>CONFIG hostname\<close> is the object literal the script builds when
  \<open>window.location.hostname\<close> is \<open>hostname\<close>; it reads nothing else.
\<close>

definition CONFIG :: "jsstring \<Rightarrow> config" where
  "CONFIG hostname =
    \<lparr> ENVIRONMENT =
        (if hostname = ascii ''localhost'' \<or> hostname = ascii ''127.0.0.1''
         then ''development'' else ''production''),
      API_BASE_URL =
        (if hostname = ascii ''localhost'' \<or> hostname = ascii ''127.0.0.1''
         then ''http://localhost:5000''
         else ''https://nutrition-advisor-a93q.onrender.com''),
      FRONTEND_URL =
        (if hostname = ascii ''localhost'' \<or> hostname = ascii ''127.0.0.1''
         then ''http://localhost:3000''
         else ''https://nutrition-advisor-frontend.onrender.com''),
      FEATURES =
        \<lparr> AI_ENABLED = True,
          DEBUG_MODE = (hostname = ascii ''localhost''),
          ANALYTICS = (hostname \<noteq> ascii ''localhost''),
          SERVICE_WORKER = (hostname \<noteq> ascii ''localhost'') \<rparr>,
      TIMEOUTS =
        \<lparr> DEFAULT = (if hostname = ascii ''localhost'' then 5000 else 10000),
          UPLOAD = 30000,
          AI_REQUEST = 15000 \<rparr>,
      STORAGE_KEYS =
        \<lparr> JWT_TOKEN = ''nutrition_advisor_token'',
          USER_PREFERENCES = ''nutrition_advisor_prefs'',
          THEME = ''nutrition_advisor_theme'' \<rparr> \<rparr>"

text \<open>
  \<open>CONFIG.getApiUrl\<close>, and the same join in the dashboard's \<open>makeApiCall\<close>: the
  base, a slash unless the endpoint starts with one, the endpoint. Every endpoint of
  the sources starts with a non-empty literal.
\<close>

fun starts_slash :: "jstext \<Rightarrow> bool" where
  "starts_slash (Lit s) = (take 1 s = ''/'')"
| "starts_slash (Cat a b) = starts_slash a"
| "starts_slash t = False"

definition api_url :: "string \<Rightarrow> jstext \<Rightarrow> jstext" where
  "api_url base endpoint =
     Cat (Lit base) (if starts_slash endpoint then endpoint else Cat (Lit ''/'') endpoint)"

definition getApiUrl :: "config \<Rightarrow> jstext \<Rightarrow> jstext" where
  "getApiUrl C endpoint = api_url (API_BASE_URL C) endpoint"

section \<open>The page and its environment\<close>

record request =
  meth :: string
  url :: jstext
  bearer :: "jsval option"
  payload :: "jsval option"

text \<open>
  What \<open>fetch\<close> followed by \<open>response.json()\<close> gives: the fetch rejects, or a
  response arrives with a status and a body that does not parse, or with a status and
  the parsed body.
\<close>

datatype outcome = NetworkError | BadJson nat | Json nat jsval

definition ok :: "nat \<Rightarrow> bool" where
  "ok status \<longleftrightarrow> 200 \<le> status \<and> status \<le> 299"

datatype callback =
    SearchFood jsstring
  | CloseModal
  | ClearMessage string
  | ShowLogin
  | Goto string

text \<open>
  The state a script can change: local storage, the address the window was last sent
  to, the requests issued so far (oldest first), the alerts shown, the properties of
  the document's elements (keyed by element id and property name), the pending timers
  (id, due time in milliseconds, callback) and the clock, and the dashboard script's
  variables. \<open>live_charts\<close> are the chart instances created and not destroyed, each
  with its canvas; \<open>placeholders\<close> are the canvases a placeholder text was drawn on.
\<close>

record page =
  localStorage :: "string \<rightharpoonup> jstext"
  href :: string
  requests :: "request list"
  alerts :: "jstext list"
  doc :: "string \<times> string \<rightharpoonup> jstext"
  has_loading :: bool
  timers :: "(nat \<times> nat \<times> callback) list"
  next_timer :: nat
  now :: nat
  token :: jsval
  selectedFood :: jsval
  macrosChart :: "nat option"
  caloriesChart :: "nat option"
  searchTimeout :: "nat option"
  live_charts :: "(nat \<times> string) list"
  next_chart :: nat
  placeholders :: "string list"

text \<open>
  What a script reads from outside: the server's answer to each request, the user's
  answer to \<open>confirm\<close>, the date and time of day (\<open>today\<close> is the date part of
  \<open>new Date().toISOString()\<close>, \<open>timestamp\<close> the whole), the engine's \<open>ToNumber\<close> on
  non-primitives, and \<open>CONFIG\<close> when the configuration script was loaded.

  The server's answer is a function of the request, and an asynchronous function is
  run to its end in one step: the response to a request is handled right after the
  request is issued. Where the source starts calls without awaiting them (the two calls
  under \<open>Promise.all\<close> in \<open>loadMealStatsWithGoals\<close>, the two reloads in
  \<open>deleteMeal\<close>), the requests leave in the order of the calls, which is the order
  of the model; the model handles the responses in that order too.
\<close>

record env =
  server :: "request \<Rightarrow> outcome"
  confirm_answer :: bool
  today :: jsstring
  timestamp :: jsstring
  conv :: "jsval \<Rightarrow> jsnum"
  cfg :: "config option"

definition set_doc :: "string \<Rightarrow> string \<Rightarrow> jstext \<Rightarrow> page \<Rightarrow> page" where
  "set_doc element property v p = p\<lparr>doc := (doc p)((element, property) \<mapsto> v)\<rparr>"

definition alert :: "jstext \<Rightarrow> page \<Rightarrow> page" where
  "alert message p = p\<lparr>alerts := alerts p @ [message]\<rparr>"

definition setItem :: "string \<Rightarrow> jstext \<Rightarrow> page \<Rightarrow> page" where
  "setItem k v p = p\<lparr>localStorage := (localStorage p)(k \<mapsto> v)\<rparr>"

definition removeItem :: "string \<Rightarrow> page \<Rightarrow> page" where
  "removeItem k p = p\<lparr>localStorage := (localStorage p)(k := None)\<rparr>"

definition setTimeout :: "callback \<Rightarrow> nat \<Rightarrow> page \<Rightarrow> nat \<times> page" where
  "setTimeout f delay p =
     (next_timer p,
      p\<lparr>timers := timers p @ [(next_timer p, now p + delay, f)],
        next_timer := next_timer p + 1\<rparr>)"

definition clearTimeout :: "nat option \<Rightarrow> page \<Rightarrow> page" where
  "clearTimeout t p =
     (case t of None \<Rightarrow> p
      | Some i \<Rightarrow> p\<lparr>timers := filter (\<lambda>(j, due, f). j \<noteq> i) (timers p)\<rparr>)"

section \<open>The dashboard script (parts 002 and 003)\<close>

text \<open>
  The repository holds two revisions of the dashboard script. They agree on every
  function modelled here but \<open>makeApiCall\<close>: part 003 handles status 401, part 002
  does not.
\<close>

datatype revision = Part002 | Part003

definition API_URL :: "env \<Rightarrow> string" where
  "API_URL E =
     (case cfg E of Some C \<Rightarrow> API_BASE_URL C
      | None \<Rightarrow> ''https://nutrition-advisor-a93q.onrender.com'')"

definition TOKEN_KEY :: "env \<Rightarrow> string" where
  "TOKEN_KEY E = (case cfg E of Some C \<Rightarrow> JWT_TOKEN (STORAGE_KEYS C) | None \<Rightarrow> ''token'')"

text \<open>
  The 401 branch of part 003: an alert, the token removed from local storage, the
  window sent to \<open>index.html\<close>, and the call returns the response with the body
  \<open>{error: 'Unauthorized'}\<close>. The alert's text starts with a warning sign (U+26A0,
  U+FE0F).
\<close>

definition session_expired :: "env \<Rightarrow> page \<Rightarrow> (jserror + nat \<times> jsval) \<times> page" where
  "session_expired E p =
     (Inr (401, JObj [(ascii ''error'', JStr (ascii ''Unauthorized''))]),
      (removeItem (TOKEN_KEY E)
         (alert (Cat (Chars [0x26A0, 0xFE0F])
                     (Lit '' Your session has expired. Please login again.'')) p))
       \<lparr>href := ''index.html''\<rparr>)"

definition hide_loading :: "bool \<Rightarrow> page \<Rightarrow> page" where
  "hide_loading loading p =
     (if loading then set_doc ''.loading'' ''style.display'' (Lit ''none'') p else p)"

text \<open>
  The request \<open>makeApiCall\<close> hands to \<open>fetch\<close>: the bearer token is the one read
  from local storage when the page was loaded, and a body is sent when \<open>data\<close> is
  truthy.
\<close>

definition api_request :: "env \<Rightarrow> jstext \<Rightarrow> string \<Rightarrow> jsval \<Rightarrow> page \<Rightarrow> request" where
  "api_request E endpoint method data p =
     \<lparr> meth = method,
       url = api_url (API_URL E) endpoint,
       bearer = Some (token p),
       payload = (if truthy data then Some data else None) \<rparr>"

fun status_of :: "outcome \<Rightarrow> nat option" where
  "status_of NetworkError = None"
| "status_of (BadJson status) = Some status"
| "status_of (Json status result) = Some status"

text \<open>
  \<open>makeApiCall(endpoint, method, data, showLoading)\<close>. The result is \<open>Inl\<close> of the
  error the call throws, or \<open>Inr\<close> of the response's status and the parsed body.
\<close>

definition makeApiCall ::
  "revision \<Rightarrow> env \<Rightarrow> jstext \<Rightarrow> string \<Rightarrow> jsval \<Rightarrow> bool \<Rightarrow> page
     \<Rightarrow> (jserror + nat \<times> jsval) \<times> page" where
  "makeApiCall R E endpoint method data showLoading p =
    (let loading = (showLoading \<and> has_loading p);
         p1 = (if loading then set_doc ''.loading'' ''style.display'' (Lit ''block'') p else p);
         req = api_request E endpoint method data p;
         p2 = p1\<lparr>requests := requests p1 @ [req]\<rparr>
     in case server E req of
          NetworkError \<Rightarrow> (Inl FetchFailed, hide_loading loading p2)
        | BadJson status \<Rightarrow>
            (if R = Part003 \<and> status = 401 then session_expired E p2
             else (Inl SyntaxError, hide_loading loading p2))
        | Json status result \<Rightarrow>
            (if R = Part003 \<and> status = 401 then session_expired E p2
             else (Inr (status, result), hide_loading loading p2)))"

section \<open>The home page script (home-script.js, two revisions)\<close>

text \<open>
  The file holds two revisions of the script. Their register and login handlers differ
  in the message texts (the second revision's start with a check mark, U+2705, or a
  cross mark, U+274C) and in the delay before the redirect. The message elements are
  elements of the page. A submitted form is the list of its entries, each name once;
  \<open>reset()\<close> of a form changes only the form and is not part of the page state.
\<close>

datatype home_revision = HomeA | HomeB

type_synonym form = "(string \<times> jsstring) list"

definition field :: "form \<Rightarrow> string \<Rightarrow> jsval" where
  "field data k = (case map_of data k of None \<Rightarrow> JUndefined | Some v \<Rightarrow> JStr v)"

definition field_text :: "form \<Rightarrow> string \<Rightarrow> jsstring" where
  "field_text data k = (case map_of data k of None \<Rightarrow> [] | Some v \<Rightarrow> v)"

definition form_object :: "form \<Rightarrow> jsval" where
  "form_object data = JObj (map (\<lambda>(k, v). (ascii k, JStr v)) data)"

definition showMessage :: "string \<Rightarrow> string \<Rightarrow> jstext \<Rightarrow> page \<Rightarrow> page" where
  "showMessage elementId kind message p =
     (let p1 = set_doc elementId ''textContent'' message
                 (set_doc elementId ''className'' (Lit (''message '' @ kind)) p)
      in if kind = ''success'' then snd (setTimeout (ClearMessage elementId) 5000 p1) else p1)"

definition home_request :: "config \<Rightarrow> jstext \<Rightarrow> string \<Rightarrow> jsval \<Rightarrow> request" where
  "home_request C endpoint method data =
     \<lparr> meth = method,
       url = getApiUrl C endpoint,
       bearer = None,
       payload = (if truthy data then Some data else None) \<rparr>"

definition clear_loading :: "string option \<Rightarrow> page \<Rightarrow> page" where
  "clear_loading loadingElementId p =
     (case loadingElementId of None \<Rightarrow> p
      | Some i \<Rightarrow> set_doc i ''className'' (Lit '''') (set_doc i ''textContent'' (Lit '''') p))"

text \<open>
  The home page's \<open>makeApiCall(endpoint, method, data, loadingElementId)\<close>. Whatever
  is thrown inside it, by \<open>fetch\<close> or by \<open>response.json()\<close>, is replaced by one error
  with the message \<open>Network error. Please check your connection and try again.\<close>
\<close>

definition makeApiCall_home ::
  "config \<Rightarrow> env \<Rightarrow> jstext \<Rightarrow> string \<Rightarrow> jsval \<Rightarrow> string option \<Rightarrow> page
     \<Rightarrow> (jserror + nat \<times> jsval) \<times> page" where
  "makeApiCall_home C E endpoint method data loadingElementId p =
    (let p1 = (case loadingElementId of None \<Rightarrow> p
               | Some i \<Rightarrow> set_doc i ''className'' (Lit ''message info'')
                             (set_doc i ''textContent'' (Lit ''Loading...'') p));
         req = home_request C endpoint method data;
         p2 = p1\<lparr>requests := requests p1 @ [req]\<rparr>
     in case server E req of
          Json status result \<Rightarrow> (Inr (status, result), clear_loading loadingElementId p2)
        | NetworkError \<Rightarrow> (Inl NetworkErrorMessage, clear_loading loadingElementId p2)
        | BadJson status \<Rightarrow> (Inl NetworkErrorMessage, clear_loading loadingElementId p2))"

fun register_success_text :: "home_revision \<Rightarrow> jstext" where
  "register_success_text HomeA = Lit ''Registration successful! You can login now.''"
| "register_success_text HomeB =
     Cat (Chars [0x2705]) (Lit '' Registration successful! You can login now.'')"

fun error_prefix :: "home_revision \<Rightarrow> jstext" where
  "error_prefix HomeA = Lit ''Error: ''"
| "error_prefix HomeB = Cat (Chars [0x274C]) (Lit '' '')"

text \<open>
  The branch for a response that is not ok: the message is the prefix and
  \<open>result.error || fallback\<close>; reading \<open>result.error\<close> throws when the body is
  \<open>null\<close>, and the handler's \<open>catch\<close> shows that error's message.
\<close>

definition show_failure :: "home_revision \<Rightarrow> string \<Rightarrow> string \<Rightarrow> jsval \<Rightarrow> page \<Rightarrow> page" where
  "show_failure H elementId fallback result p =
     (case get_prop result ''error'' of
        Inl e \<Rightarrow> showMessage elementId ''error'' (MessageOf e) p
      | Inr err \<Rightarrow>
          showMessage elementId ''error''
            (Cat (error_prefix H) (ToString (js_or err (JStr (ascii fallback))))) p)"

text \<open>The submit handler of the registration form.\<close>

definition registerSubmit :: "home_revision \<Rightarrow> config \<Rightarrow> env \<Rightarrow> form \<Rightarrow> page \<Rightarrow> page" where
  "registerSubmit H C E data p =
    (if \<not> truthy (field data ''name'') \<or> \<not> truthy (field data ''email'')
        \<or> \<not> truthy (field data ''password'')
     then showMessage ''registerMessage'' ''error'' (Lit ''Please fill in all fields.'') p
     else if length (field_text data ''password'') < 6
     then showMessage ''registerMessage'' ''error''
            (Lit ''Password must be at least 6 characters long.'') p
     else (case makeApiCall_home C E (Lit ''/register'') ''POST'' (form_object data)
                  (Some ''registerMessage'') p of
             (Inl e, p1) \<Rightarrow> showMessage ''registerMessage'' ''error'' (MessageOf e) p1
           | (Inr (status, result), p1) \<Rightarrow>
               if ok status
               then snd (setTimeout ShowLogin 2000
                      (showMessage ''registerMessage'' ''success'' (register_success_text H) p1))
               else show_failure H ''registerMessage'' ''Registration failed'' result p1))"

fun login_success_text :: "home_revision \<Rightarrow> jstext" where
  "login_success_text HomeA = Lit ''Login successful! Redirecting to dashboard...''"
| "login_success_text HomeB =
     Cat (Chars [0x2705]) (Lit '' Login successful! Redirecting to dashboard...'')"

fun redirect_delay :: "home_revision \<Rightarrow> nat" where
  "redirect_delay HomeA = 2000"
| "redirect_delay HomeB = 1500"

fun is_string :: "jsval \<Rightarrow> bool" where
  "is_string (JStr s) = True"
| "is_string v = False"

text \<open>
  The ok branch of the login handler: the token is stored, then the preferences blob is
  built from \<open>result.user\<close> and stored, then the success message is shown. Reading
  \<open>result.token\<close> throws on a \<open>null\<close> body and reading \<open>result.user.id\<close> throws
  when \<open>result.user\<close> is undefined or null; in debug mode the log line calls
  \<open>result.token.substring\<close>, which throws unless the token is a string. The
  handler's \<open>catch\<close> shows the error's message.
\<close>

definition user_fields :: "jsval \<Rightarrow> jserror + jsval \<times> jsval \<times> jsval" where
  "user_fields result =
     bindE (get_prop result ''user'') (\<lambda>u.
     bindE (get_prop u ''id'') (\<lambda>i.
     bindE (get_prop u ''name'') (\<lambda>n.
     bindE (get_prop u ''email'') (\<lambda>m. Inr (i, n, m)))))"

definition login_success :: "home_revision \<Rightarrow> config \<Rightarrow> env \<Rightarrow> jsval \<Rightarrow> page \<Rightarrow> page" where
  "login_success H C E result p =
    (case get_prop result ''token'' of
       Inl e \<Rightarrow> showMessage ''loginMessage'' ''error'' (MessageOf e) p
     | Inr tok \<Rightarrow>
        (let p1 = setItem (JWT_TOKEN (STORAGE_KEYS C)) (ToString tok) p
         in case user_fields result of
              Inl e \<Rightarrow> showMessage ''loginMessage'' ''error'' (MessageOf e) p1
            | Inr (i, n, m) \<Rightarrow>
               (let p2 = setItem (USER_PREFERENCES (STORAGE_KEYS C))
                           (Stringify [(''user_id'', i), (''name'', n), (''email'', m),
                                       (''loginTime'', JStr (timestamp E))]) p1;
                    p3 = showMessage ''loginMessage'' ''success'' (login_success_text H) p2
                in if DEBUG_MODE (FEATURES C) \<and> \<not> is_string tok
                   then showMessage ''loginMessage'' ''error'' (MessageOf TypeError) p3
                   else snd (setTimeout (Goto ''dashboard.html'') (redirect_delay H) p3))))"

text \<open>The submit handler of the login form.\<close>

definition loginSubmit :: "home_revision \<Rightarrow> config \<Rightarrow> env \<Rightarrow> form \<Rightarrow> page \<Rightarrow> page" where
  "loginSubmit H C E data p =
    (if \<not> truthy (field data ''email'') \<or> \<not> truthy (field data ''password'')
     then showMessage ''loginMessage'' ''error''
            (Lit ''Please enter both email and password.'') p
     else (case makeApiCall_home C E (Lit ''/login'') ''POST'' (form_object data)
                  (Some ''loginMessage'') p of
             (Inl e, p1) \<Rightarrow> showMessage ''loginMessage'' ''error'' (MessageOf e) p1
           | (Inr (status, result), p1) \<Rightarrow>
               if ok status then login_success H C E result p1
               else show_failure H ''loginMessage'' ''Login failed'' result p1))"

section \<open>The earlier login handlers (public/script.js and part 000)\<close>

text \<open>
  Both call \<open>fetch\<close> directly, with no validation and no \<open>try\<close>: a rejected fetch or
  an unparsable body ends the handler. On an ok response they store the token under the
  key \<open>token\<close> and nothing else; \<open>script.js\<close> shows its message before storing, part
  000 stores first and schedules the redirect.
\<close>

datatype legacy = ScriptJs | Part000

fun login_url :: "legacy \<Rightarrow> jstext" where
  "login_url ScriptJs = Lit ''http://127.0.0.1:5000/login''"
| "login_url Part000 = Lit ''/api/login''"

definition login_request :: "legacy \<Rightarrow> form \<Rightarrow> request" where
  "login_request L data =
     \<lparr> meth = ''POST'', url = login_url L, bearer = None, payload = Some (form_object data) \<rparr>"

definition set_message :: "string \<Rightarrow> jstext \<Rightarrow> page \<Rightarrow> page" where
  "set_message cls message p =
     set_doc ''loginMessage'' ''textContent'' message
       (set_doc ''loginMessage'' ''className'' (Lit cls) p)"

fun legacy_ok :: "legacy \<Rightarrow> jsval \<Rightarrow> page \<Rightarrow> page" where
  "legacy_ok ScriptJs result p =
     (let p1 = set_message ''message success'' (Lit ''Login successful! JWT Token saved.'') p
      in case get_prop result ''token'' of
           Inl e \<Rightarrow> p1
         | Inr tok \<Rightarrow> setItem ''token'' (ToString tok) p1)"
| "legacy_ok Part000 result p =
     (case get_prop result ''token'' of
        Inl e \<Rightarrow> p
      | Inr tok \<Rightarrow>
          snd (setTimeout (Goto ''dashboard.html'') 2000
            (set_message ''message success''
               (Lit ''Login successful! Redirecting to dashboard...'')
               (setItem ''token'' (ToString tok) p))))"

definition loginSubmit_legacy :: "legacy \<Rightarrow> env \<Rightarrow> form \<Rightarrow> page \<Rightarrow> page" where
  "loginSubmit_legacy L E data p =
    (let req = login_request L data;
         p1 = p\<lparr>requests := requests p @ [req]\<rparr>
     in case server E req of
          NetworkError \<Rightarrow> p1
        | BadJson status \<Rightarrow> p1
        | Json status result \<Rightarrow>
            if ok status then legacy_ok L result p1
            else (case get_prop result ''error'' of
                    Inl e \<Rightarrow> set_doc ''loginMessage'' ''className'' (Lit ''message error'') p1
                  | Inr err \<Rightarrow>
                      set_message ''message error''
                        (Cat (Lit ''Error: '') (ToString (js_or err (JStr (ascii ''Unknown error'')))))
                        p1))"

section \<open>The dashboard: meal statistics, today's meals, deleting a meal\<close>

text \<open>\<open>strict_zero v\<close> is \<open>v === 0\<close>; \<open>readable v\<close> holds when a property read of
  \<open>v\<close> does not throw.\<close>

fun strict_zero :: "jsval \<Rightarrow> bool" where
  "strict_zero (JNum n) = (n = Fin 0)"
| "strict_zero v = False"

fun readable :: "jsval \<Rightarrow> bool" where
  "readable JUndefined = False"
| "readable JNull = False"
| "readable v = True"

text \<open>
  \<open>displayMeals(meals)\<close>: the empty-state block when \<open>meals.length === 0\<close>, else
  \<open>meals.map\<close> renders one block per meal, which needs an array (a parsed body has
  no callable \<open>map\<close> otherwise) whose elements can be read. It throws before it
  writes.
\<close>

definition displayMeals :: "jsval \<Rightarrow> page \<Rightarrow> jserror + page" where
  "displayMeals meals p =
     bindE (get_length meals) (\<lambda>n.
       if strict_zero n
       then Inr (set_doc ''recentMeals'' ''innerHTML'' (Rendered ''empty-state'' JNull) p)
       else (case meals of
               JArr xs \<Rightarrow>
                 if list_all readable xs
                 then Inr (set_doc ''recentMeals'' ''innerHTML'' (Rendered ''meal-item'' meals) p)
                 else Inl TypeError
             | _ \<Rightarrow> Inl TypeError))"

definition loadTodaysMeals :: "revision \<Rightarrow> env \<Rightarrow> page \<Rightarrow> page" where
  "loadTodaysMeals R E p =
     (case makeApiCall R E (Cat (Lit ''/meals?date='') (Chars (today E))) ''GET'' JNull False p of
        (Inl e, p1) \<Rightarrow> p1
      | (Inr (status, result), p1) \<Rightarrow>
          if ok status then (case displayMeals result p1 of Inl e \<Rightarrow> p1 | Inr p2 \<Rightarrow> p2)
          else p1)"

text \<open>
  The personalised progress of \<open>loadMealStatsWithGoals\<close>:
  \<open>Math.min(Math.round((stats.total_calories / profile.dailyCalories) * 100), 100)\<close>.
\<close>

definition personal_progress :: "env \<Rightarrow> jsval \<Rightarrow> jsval \<Rightarrow> jsnum" where
  "personal_progress E eaten daily =
     js_min (js_round (js_mul (js_div (to_number (conv E) eaten) (to_number (conv E) daily))
                              (Fin 100)))
            (Fin 100)"

text \<open>
  The value of the variable \<open>goalProgress\<close> when the fields are written: the server's
  \<open>stats.goal_progress\<close>, replaced by the personalised progress when the profile
  call returned an ok response whose \<open>dailyCalories\<close> is truthy. A call that threw
  counts as a response that is not ok.
\<close>

definition goalProgress :: "env \<Rightarrow> jsval \<Rightarrow> jserror + nat \<times> jsval \<Rightarrow> jserror + jsval" where
  "goalProgress E stats profileResult =
     bindE (get_prop stats ''goal_progress'') (\<lambda>server_progress.
       case profileResult of
         Inl e \<Rightarrow> Inr server_progress
       | Inr (status, profile) \<Rightarrow>
           if \<not> ok status then Inr server_progress
           else bindE (get_prop profile ''dailyCalories'') (\<lambda>daily.
                  if truthy daily
                  then bindE (get_prop stats ''total_calories'') (\<lambda>eaten.
                         Inr (JNum (personal_progress E eaten daily)))
                  else Inr server_progress))"

definition show_stats :: "jsval \<Rightarrow> jsval \<Rightarrow> page \<Rightarrow> jserror + page" where
  "show_stats stats progress p =
     bindE (get_prop stats ''total_calories'') (\<lambda>eaten.
     bindE (get_prop stats ''meals_count'') (\<lambda>meals.
     bindE (get_prop stats ''streak'') (\<lambda>streak.
       Inr (set_doc ''streakCount'' ''textContent'' (OfValue streak)
           (set_doc ''goalProgress'' ''textContent'' (Cat (ToString progress) (Lit ''%''))
           (set_doc ''mealsCount'' ''textContent'' (OfValue meals)
           (set_doc ''caloriesCount'' ''textContent'' (OfValue eaten) p)))))))"

text \<open>
  \<open>loadMealStatsWithGoals\<close>: both requests are issued, the statistics first; the
  fields are written when the statistics response is ok; an error thrown while the
  values are read is caught and nothing is written.
\<close>

definition loadMealStatsWithGoals :: "revision \<Rightarrow> env \<Rightarrow> page \<Rightarrow> page" where
  "loadMealStatsWithGoals R E p =
     (case makeApiCall R E (Lit ''/meals/stats'') ''GET'' JNull False p of
        (statsResult, p1) \<Rightarrow>
     (case makeApiCall R E (Lit ''/profile'') ''GET'' JNull False p1 of
        (profileResult, p2) \<Rightarrow>
     (case statsResult of
        Inl e \<Rightarrow> p2
      | Inr (status, stats) \<Rightarrow>
          if \<not> ok status then p2
          else (case bindE (goalProgress E stats profileResult) (\<lambda>g. show_stats stats g p2) of
                  Inl e \<Rightarrow> p2
                | Inr p3 \<Rightarrow> p3))))"

text \<open>\<open>deleteMeal(mealId)\<close>; the answer to the confirmation dialog comes from the
  environment.\<close>

definition deleteMeal :: "revision \<Rightarrow> env \<Rightarrow> jsstring \<Rightarrow> page \<Rightarrow> page" where
  "deleteMeal R E mealId p =
     (if \<not> confirm_answer E then p
      else (case makeApiCall R E (Cat (Lit ''/meal/delete/'') (Chars mealId)) ''DELETE'' JNull
                   False p of
              (Inl e, p1) \<Rightarrow> alert (Lit ''Error deleting meal'') p1
            | (Inr (status, result), p1) \<Rightarrow>
                if ok status then loadTodaysMeals R E (loadMealStatsWithGoals R E p1)
                else alert (Lit ''Error deleting meal'') p1))"

section \<open>The dashboard: food search\<close>

text \<open>
  \<open>displayFoodSuggestions(foods)\<close>: as \<open>displayMeals\<close>, and each element's
  \<open>food_name\<close> must be a string, since the template calls its \<open>replace\<close>.
\<close>

definition suggestion_ok :: "jsval \<Rightarrow> bool" where
  "suggestion_ok food =
     (case get_prop food ''food_name'' of Inr (JStr s) \<Rightarrow> True | _ \<Rightarrow> False)"

definition displayFoodSuggestions :: "jsval \<Rightarrow> page \<Rightarrow> jserror + page" where
  "displayFoodSuggestions foods p =
     bindE (get_length foods) (\<lambda>n.
       if strict_zero n
       then Inr (set_doc ''foodSuggestions'' ''innerHTML'' (Rendered ''No foods found'' JNull) p)
       else (case foods of
               JArr xs \<Rightarrow>
                 if list_all suggestion_ok xs
                 then Inr (set_doc ''foodSuggestions'' ''innerHTML''
                             (Rendered ''suggestion-item'' foods) p)
                 else Inl TypeError
             | _ \<Rightarrow> Inl TypeError))"

text \<open>
  \<open>searchFood(query)\<close>. \<open>encodeURIComponent\<close> throws on a query that is not
  well-formed UTF-16, before any request is made; every error is caught and logged.
\<close>

definition search_endpoint :: "jsstring \<Rightarrow> jstext" where
  "search_endpoint query = Cat (Lit ''/food/search?q='') (UriComponent query)"

definition searchFood :: "revision \<Rightarrow> env \<Rightarrow> jsstring \<Rightarrow> page \<Rightarrow> page" where
  "searchFood R E query p =
     (if \<not> well_formed query then p
      else (case makeApiCall R E (search_endpoint query) ''GET'' JNull False p of
              (Inl e, p1) \<Rightarrow> p1
            | (Inr (status, result), p1) \<Rightarrow>
                if ok status
                then (case bindE (get_prop result ''foods'')
                             (\<lambda>foods. displayFoodSuggestions (js_or foods (JArr [])) p1) of
                        Inl e \<Rightarrow> p1
                      | Inr p2 \<Rightarrow> p2)
                else p1))"

text \<open>
  The input listener that \<open>setupFoodSearch\<close> installs, run with the field's value
  \<open>v\<close>. \<open>searchTimeout\<close> is the listener's variable; it is undefined until the
  first timer is set.
\<close>

definition onSearchInput :: "jsstring \<Rightarrow> page \<Rightarrow> page" where
  "onSearchInput v p =
     (let query = trim v;
          p1 = clearTimeout (searchTimeout p) p
      in if length query < 2
         then set_doc ''foodSuggestions'' ''innerHTML'' (Lit '''') p1
         else (case setTimeout (SearchFood query) 500 p1 of
                 (i, p2) \<Rightarrow> p2\<lparr>searchTimeout := Some i\<rparr>))"

section \<open>Timers and events\<close>

definition closeModal :: "page \<Rightarrow> page" where
  "closeModal p =
     (set_doc ''selectedFoodName'' ''value'' (Lit '''')
     (set_doc ''selectedFoodId'' ''value'' (Lit '''')
     (set_doc ''nutritionPreview'' ''style.display'' (Lit ''none'')
     (set_doc ''foodSuggestions'' ''innerHTML'' (Lit '''')
     (set_doc ''mealMessage'' ''textContent'' (Lit '''')
     (set_doc ''addMealModal'' ''style.display'' (Lit ''none'') p))))))
       \<lparr>selectedFood := JNull\<rparr>"

definition showLogin :: "page \<Rightarrow> page" where
  "showLogin p =
     set_doc ''registerSection'' ''style.display'' (Lit ''none'')
    (set_doc ''loginSection'' ''style.display'' (Lit ''block'')
    (set_doc ''authModal'' ''style.display'' (Lit ''block'') p))"

text \<open>What a timer's callback does when it runs.\<close>

fun fire :: "revision \<Rightarrow> env \<Rightarrow> callback \<Rightarrow> page \<Rightarrow> page" where
  "fire R E (SearchFood query) p = searchFood R E query p"
| "fire R E CloseModal p = closeModal p"
| "fire R E (ClearMessage i) p =
     set_doc i ''className'' (Lit '''') (set_doc i ''textContent'' (Lit '''') p)"
| "fire R E ShowLogin p = showLogin p"
| "fire R E (Goto address) p = p\<lparr>href := address\<rparr>"

text \<open>
  The events of the food search, in a discrete time of milliseconds: an input event
  with the field's value, time passing, and the event loop running the pending timer
  with a given id, which it does only when the timer is due.
\<close>

datatype event = Input jsstring | Elapse nat | RunTimer nat

definition run_timer :: "revision \<Rightarrow> env \<Rightarrow> nat \<Rightarrow> page \<Rightarrow> page" where
  "run_timer R E i p =
     (case find (\<lambda>(j, due, f). j = i) (timers p) of
        None \<Rightarrow> p
      | Some (j, due, f) \<Rightarrow>
          if due \<le> now p
          then fire R E f (p\<lparr>timers := filter (\<lambda>(j, due, f). j \<noteq> i) (timers p)\<rparr>)
          else p)"

fun step :: "revision \<Rightarrow> env \<Rightarrow> page \<Rightarrow> event \<Rightarrow> page" where
  "step R E p (Input v) = onSearchInput v p"
| "step R E p (Elapse dt) = p\<lparr>now := now p + dt\<rparr>"
| "step R E p (RunTimer i) = run_timer R E i p"

definition run :: "revision \<Rightarrow> env \<Rightarrow> page \<Rightarrow> event list \<Rightarrow> page" where
  "run R E p es = foldl (step R E) p es"

text \<open>
  Read off a sequence of events that starts at time \<open>t\<close>: the time at its end, and the
  time and trimmed value of its last input event.
\<close>

fun end_time :: "nat \<Rightarrow> event list \<Rightarrow> nat" where
  "end_time t [] = t"
| "end_time t (Elapse dt # es) = end_time (t + dt) es"
| "end_time t (e # es) = end_time t es"

fun last_input :: "nat \<Rightarrow> event list \<Rightarrow> (nat \<times> jsstring) option" where
  "last_input t [] = None"
| "last_input t (Input v # es) =
     (case last_input t es of None \<Rightarrow> Some (t, trim v) | Some x \<Rightarrow> Some x)"
| "last_input t (Elapse dt # es) = last_input (t + dt) es"
| "last_input t (RunTimer i # es) = last_input t es"

definition pending_searches :: "page \<Rightarrow> (nat \<times> jsstring) list" where
  "pending_searches p =
     concat (map (\<lambda>(i, due, f). case f of SearchFood q \<Rightarrow> [(due, q)] | _ \<Rightarrow> []) (timers p))"

definition search_request :: "env \<Rightarrow> jsstring \<Rightarrow> page \<Rightarrow> request" where
  "search_request E query p = api_request E (search_endpoint query) ''GET'' JNull p"

section \<open>The dashboard: nutrition preview\<close>

text \<open>
  \<open>displayNutritionPreview(foodData)\<close>. \<open>Inl\<close> is the error it throws; it throws
  before it writes, since the four reads are of one \<open>serving\<close> and the first of them
  throws when that is undefined or null. \<open>shown serving k\<close> is \<open>serving.k || '0'\<close>
  for a serving that can be read.
\<close>

definition shown :: "jsval \<Rightarrow> string \<Rightarrow> jsval" where
  "shown serving k =
     (case get_prop serving k of Inl e \<Rightarrow> JUndefined | Inr v \<Rightarrow> js_or v (JStr (ascii ''0'')))"

definition show_preview :: "jsval \<Rightarrow> page \<Rightarrow> page" where
  "show_preview serving p =
     set_doc ''nutritionPreview'' ''style.display'' (Lit ''block'')
    (set_doc ''previewFat'' ''textContent'' (OfValue (shown serving ''fat''))
    (set_doc ''previewCarbs'' ''textContent'' (OfValue (shown serving ''carbohydrate''))
    (set_doc ''previewProtein'' ''textContent'' (OfValue (shown serving ''protein''))
    (set_doc ''previewCalories'' ''textContent'' (OfValue (shown serving ''calories'')) p))))"

definition displayNutritionPreview :: "jsval \<Rightarrow> page \<Rightarrow> jserror + page" where
  "displayNutritionPreview foodData p =
     bindE (get_prop foodData ''food'') (\<lambda>food.
       if \<not> truthy food then Inr p
       else bindE (get_prop food ''servings'') (\<lambda>servings.
         if \<not> truthy servings then Inr p
         else bindE (get_prop servings ''serving'') (\<lambda>sv.
           let serving = (case sv of JArr xs \<Rightarrow> first_element xs | _ \<Rightarrow> sv)
           in bindE (get_prop serving ''calories'') (\<lambda>calories.
                Inr (show_preview serving p)))))"

section \<open>The dashboard: charts\<close>

text \<open>
  A chart instance is known by a number. \<open>new Chart\<close> on a canvas makes a fresh
  instance that is displayed on the canvas until it is destroyed; \<open>destroy\<close> of an
  instance that is already destroyed does nothing. \<open>displayed canvas p\<close> are the
  instances displayed on a canvas.
\<close>

definition destroy :: "nat \<Rightarrow> page \<Rightarrow> page" where
  "destroy c p = p\<lparr>live_charts := filter (\<lambda>(d, canvas). d \<noteq> c) (live_charts p)\<rparr>"

definition new_Chart :: "string \<Rightarrow> page \<Rightarrow> nat \<times> page" where
  "new_Chart canvas p =
     (next_chart p,
      p\<lparr>live_charts := live_charts p @ [(next_chart p, canvas)],
        next_chart := next_chart p + 1\<rparr>)"

definition draw_placeholder :: "string \<Rightarrow> page \<Rightarrow> page" where
  "draw_placeholder canvas p = p\<lparr>placeholders := placeholders p @ [canvas]\<rparr>"

definition displayed :: "string \<Rightarrow> page \<Rightarrow> nat list" where
  "displayed canvas p = map fst (filter (\<lambda>(c, cv). cv = canvas) (live_charts p))"

text \<open>
  \<open>createMacrosChart(protein, carbs, fat)\<close>: the held chart is destroyed; when the
  calories add up to zero a placeholder is drawn and the function returns, with the
  variable \<open>macrosChart\<close> as it was; otherwise a chart is made and assigned to it.
\<close>

definition createMacrosChart :: "env \<Rightarrow> jsval \<Rightarrow> jsval \<Rightarrow> jsval \<Rightarrow> page \<Rightarrow> page" where
  "createMacrosChart E protein carbs fat p =
    (let p1 = (case macrosChart p of None \<Rightarrow> p | Some c \<Rightarrow> destroy c p);
         proteinCals = js_mul (to_number (conv E) protein) (Fin 4);
         carbsCals = js_mul (to_number (conv E) carbs) (Fin 4);
         fatCals = js_mul (to_number (conv E) fat) (Fin 9);
         calories = js_add (js_add proteinCals carbsCals) fatCals
     in if calories = Fin 0 then draw_placeholder ''macrosChart'' p1
        else (case new_Chart ''macrosChart'' p1 of (c, p2) \<Rightarrow> p2\<lparr>macrosChart := Some c\<rparr>))"

text \<open>
  \<open>createCaloriesChart(dailyData)\<close>: the held chart is destroyed, then
  \<open>Object.keys(dailyData)\<close> and the read of each day's \<open>calories\<close> may throw; with
  no day a placeholder is drawn and the function returns. The result pairs the error
  thrown, if any, with the page as the function leaves it.
\<close>

fun own_values :: "jsval \<Rightarrow> jserror + jsval list" where
  "own_values JUndefined = Inl TypeError"
| "own_values JNull = Inl TypeError"
| "own_values (JObj kvs) = Inr (map snd kvs)"
| "own_values (JArr xs) = Inr xs"
| "own_values (JStr s) = Inr (map (\<lambda>c. JStr [c]) s)"
| "own_values v = Inr []"

definition createCaloriesChart :: "jsval \<Rightarrow> page \<Rightarrow> jserror option \<times> page" where
  "createCaloriesChart dailyData p =
    (let p1 = (case caloriesChart p of None \<Rightarrow> p | Some c \<Rightarrow> destroy c p)
     in case own_values dailyData of
          Inl e \<Rightarrow> (Some e, p1)
        | Inr days \<Rightarrow>
            if \<not> list_all readable days then (Some TypeError, p1)
            else if days = [] then (None, draw_placeholder ''caloriesChart'' p1)
            else (case new_Chart ''caloriesChart'' p1 of
                    (c, p2) \<Rightarrow> (None, p2\<lparr>caloriesChart := Some c\<rparr>)))"

definition closeAnalysisModal :: "page \<Rightarrow> page" where
  "closeAnalysisModal p =
    (let p1 = set_doc ''analysisModal'' ''style.display'' (Lit ''none'') p;
         p2 = (case macrosChart p1 of None \<Rightarrow> p1
               | Some c \<Rightarrow> (destroy c p1)\<lparr>macrosChart := None\<rparr>)
     in case caloriesChart p2 of None \<Rightarrow> p2
        | Some c \<Rightarrow> (destroy c p2)\<lparr>caloriesChart := None\<rparr>)"

text \<open>
  The invariant of the specification for one handle: it is null, or it is the
  instance displayed on its canvas.
\<close>

definition handle_ok :: "nat option \<Rightarrow> string \<Rightarrow> page \<Rightarrow> bool" where
  "handle_ok h canvas p = (case h of None \<Rightarrow> True | Some c \<Rightarrow> displayed canvas p = [c])"

section \<open>The dashboard: goal calculator\<close>













section \<open>Auxiliary notions for the proofs\<close>

text \<open>
  \<open>steady p q\<close>: \<open>q\<close> has the token variable, the timers, the clock and the search
  listener's variable of \<open>p\<close>. \<open>ok_json\<close> holds of a response with a 2xx status and a
  body that parses.
\<close>

definition steady :: "page \<Rightarrow> page \<Rightarrow> bool" where
  "steady p q \<longleftrightarrow>
     token q = token p \<and> timers q = timers p \<and> next_timer q = next_timer p
     \<and> now q = now p \<and> searchTimeout q = searchTimeout p"

fun ok_json :: "outcome \<Rightarrow> bool" where
  "ok_json (Json status result) = ok status"
| "ok_json out = False"

definition delete_request :: "env \<Rightarrow> jsstring \<Rightarrow> page \<Rightarrow> request" where
  "delete_request E mealId p =
     api_request E (Cat (Lit ''/meal/delete/'') (Chars mealId)) ''DELETE'' JNull p"

definition stats_request :: "env \<Rightarrow> page \<Rightarrow> request" where
  "stats_request E p = api_request E (Lit ''/meals/stats'') ''GET'' JNull p"

definition profile_request :: "env \<Rightarrow> page \<Rightarrow> request" where
  "profile_request E p = api_request E (Lit ''/profile'') ''GET'' JNull p"

definition meals_request :: "env \<Rightarrow> page \<Rightarrow> request" where
  "meals_request E p =
     api_request E (Cat (Lit ''/meals?date='') (Chars (today E))) ''GET'' JNull p"

text \<open>The requests a handler issued: those of the page after it, past those before.\<close>

definition issued :: "page \<Rightarrow> page \<Rightarrow> request list" where
  "issued p q = drop (length (requests p)) (requests q)"

text \<open>
  The progress as the claim words it, \<open>min(round(100 * total_calories / dailyCalories),
  100)\<close>, read in exact arithmetic (\<open>claimed_progress\<close>) and read as a JavaScript
  expression, evaluated left to right in doubles (\<open>claimed_progress_double\<close>).
\<close>

definition claimed_progress :: "rat \<Rightarrow> rat \<Rightarrow> int" where
  "claimed_progress eaten daily = min \<lfloor>100 * eaten / daily + 1 / 2\<rfloor> 100"

definition claimed_progress_double :: "jsnum \<Rightarrow> jsnum \<Rightarrow> jsnum" where
  "claimed_progress_double eaten daily =
     js_min (js_round (js_div (js_mul (Fin 100) eaten) daily)) (Fin 100)"

text \<open>
  \<open>search_inv t es p\<close>: the page \<open>p\<close> is as the food search can leave it after the
  events \<open>es\<close>, begun at time \<open>t\<close>. The clock agrees with the events, timer ids are
  distinct and below the next id, and every pending search timer is the one the
  listener's variable names, was set by the last input event, whose trimmed value of
  at least 2 code units it carries, and is due 500 ms after that event.
\<close>

definition search_inv :: "nat \<Rightarrow> event list \<Rightarrow> page \<Rightarrow> bool" where
  "search_inv t es p \<longleftrightarrow>
     now p = end_time t es
     \<and> distinct (map fst (timers p))
     \<and> (\<forall>x \<in> set (timers p). fst x < next_timer p)
     \<and> (\<forall>x \<in> set (timers p). \<forall>q. snd (snd x) = SearchFood q \<longrightarrow>
           searchTimeout p = Some (fst x) \<and> 2 \<le> length q
           \<and> (\<exists>t'. last_input t es = Some (t', q) \<and> fst (snd x) = t' + 500))"

section \<open>Example inputs\<close>

text \<open>
  A dashboard page as it stands after loading with a stored token and no
  configuration script, and servers that answer every request alike.
\<close>

definition dashboard0 :: page where
  "dashboard0 =
    \<lparr> localStorage = [''token'' \<mapsto> Chars (ascii ''t0k'')],
      href = ''dashboard.html'',
      requests = [],
      alerts = [],
      doc = Map.empty,
      has_loading = False,
      timers = [],
      next_timer = 0,
      now = 0,
      token = JStr (ascii ''t0k''),
      selectedFood = JNull,
      macrosChart = None,
      caloriesChart = None,
      searchTimeout = None,
      live_charts = [],
      next_chart = 0,
      placeholders = [] \<rparr>"

definition answering :: "outcome \<Rightarrow> env" where
  "answering out =
    \<lparr> server = (\<lambda>r. out),
      confirm_answer = True,
      today = ascii ''2025-01-31'',
      timestamp = ascii ''2025-01-31T12:00:00.000Z'',
      conv = (\<lambda>v. NaN),
      cfg = None \<rparr>"

text \<open>
  The home page before any submission, a registration form filled in, one with a
  password of three characters, a login form, and login bodies with and without the
  \<open>user\<close> object.
\<close>

definition home0 :: page where
  "home0 = dashboard0\<lparr>localStorage := Map.empty, href := ''home.html'', token := JUndefined\<rparr>"

definition register_form :: form where
  "register_form =
     [(''name'', ascii ''Ann''), (''email'', ascii ''ann@example.org''),
      (''password'', ascii ''secret1'')]"

definition short_password_form :: form where
  "short_password_form =
     [(''name'', ascii ''Ann''), (''email'', ascii ''ann@example.org''),
      (''password'', ascii ''abc'')]"

definition login_form :: form where
  "login_form = [(''email'', ascii ''ann@example.org''), (''password'', ascii ''secret1'')]"

definition login_body :: jsval where
  "login_body =
     JObj [(ascii ''token'', JStr (ascii ''abc'')),
           (ascii ''user'', JObj [(ascii ''id'', JNum (Fin 7)), (ascii ''name'', JStr (ascii ''Ann'')),
                                  (ascii ''email'', JStr (ascii ''ann@example.org''))])]"

definition token_only_body :: jsval where
  "token_only_body = JObj [(ascii ''token'', JStr (ascii ''abc''))]"

text \<open>
  A server for the dashboard: 57 calories eaten today, a daily goal of 200, and an
  empty list for any other request.
\<close>

definition stats_body :: jsval where
  "stats_body =
     JObj [(ascii ''total_calories'', JNum (Fin 57)), (ascii ''meals_count'', JNum (Fin 1)),
           (ascii ''goal_progress'', JNum (Fin 3)), (ascii ''streak'', JNum (Fin 2))]"

definition profile_body :: jsval where
  "profile_body = JObj [(ascii ''dailyCalories'', JNum (Fin 200))]"

definition tracker :: env where
  "tracker =
     (answering NetworkError)
       \<lparr>server :=
          (\<lambda>r. if url r = api_url ''https://nutrition-advisor-a93q.onrender.com''
                              (Lit ''/meals/stats'')
                then Json 200 stats_body
                else if url r = api_url ''https://nutrition-advisor-a93q.onrender.com''
                                   (Lit ''/profile'')
                then Json 200 profile_body
                else Json 200 (JArr []))\<rparr>"

text \<open>
  A food search: the user types \<open>ap\<close>, 200 ms later \<open>appl\<close> (with spaces around it),
  and 500 ms pass; the server answers every request with an empty list of foods.
\<close>

definition typing :: "event list" where
  "typing = [Input (ascii ''ap''), Elapse 200, Input (ascii '' appl ''), Elapse 500]"

definition no_foods :: env where
  "no_foods = answering (Json 200 (JObj [(ascii ''foods'', JArr [])]))"

text \<open>Food details with two servings, with one serving that is not in an array, with
  an empty list of servings, with no serving at all, and with one serving whose
  calories are the empty string.\<close>

definition food_with :: "jsval \<Rightarrow> jsval" where
  "food_with servings = JObj [(ascii ''food'', JObj [(ascii ''servings'', servings)])]"

definition two_servings :: jsval where
  "two_servings =
     food_with (JObj [(ascii ''serving'',
       JArr [JObj [(ascii ''calories'', JStr (ascii ''95'')), (ascii ''protein'', JStr (ascii ''0.5'')),
                   (ascii ''fat'', JStr (ascii ''0.3''))],
             JObj [(ascii ''calories'', JStr (ascii ''52''))]])])"

definition one_serving :: jsval where
  "one_serving =
     food_with (JObj [(ascii ''serving'', JObj [(ascii ''calories'', JStr (ascii ''120''))])])"

definition no_servings :: jsval where
  "no_servings = food_with (JObj [(ascii ''serving'', JArr [])])"

definition serving_absent :: jsval where
  "serving_absent = food_with (JObj [(ascii ''serving_id'', JStr (ascii ''1''))])"

definition blank_calories :: jsval where
  "blank_calories =
     food_with (JObj [(ascii ''serving'', JObj [(ascii ''calories'', JStr [])])])"


section \<open>Properties\<close>

lemma ascii_inj: "ascii s = ascii t \<longleftrightarrow> s = t"
proof -
  have "inj (\<lambda>c::char. (of_nat (of_char c) :: 16 word))"
  proof (rule injI)
    fix x y :: char
    assume h: "(of_nat (of_char x) :: 16 word) = of_nat (of_char y)"
    have bx: "(of_char x :: nat) < 2 ^ 16"
      by (rule less_trans [OF nat_of_char_less_256]) simp
    have bY: "(of_char y :: nat) < 2 ^ 16"
      by (rule less_trans [OF nat_of_char_less_256]) simp
    from h have "unat (of_nat (of_char x) :: 16 word) = unat (of_nat (of_char y) :: 16 word)"
      by simp
    then have "(of_char x :: nat) = of_char y"
      using bx bY by (simp add: unat_of_nat take_bit_nat_eq_self)
    then show "x = y" by simp
  qed
  then show ?thesis
    unfolding ascii_def by (simp add: inj_map_eq_map)
qed

text \<open>
  C7. The environment, the API base URL and the feature flags are functions of the
  hostname alone: the environment is development and the API base URL the local one
  exactly for the hostnames localhost and 127.0.0.1, and they are the production
  values otherwise; the debug flag is set exactly for localhost; two loads with one
  hostname give equal configurations.
\<close>

theorem C7_config_of_hostname:
  "(ENVIRONMENT (CONFIG h) = ''development'') = (h = ascii ''localhost'' \<or> h = ascii ''127.0.0.1'')
   \<and> (ENVIRONMENT (CONFIG h) = ''production'') = (\<not> (h = ascii ''localhost'' \<or> h = ascii ''127.0.0.1''))
   \<and> (API_BASE_URL (CONFIG h) = ''http://localhost:5000'')
        = (h = ascii ''localhost'' \<or> h = ascii ''127.0.0.1'')
   \<and> (API_BASE_URL (CONFIG h) = ''https://nutrition-advisor-a93q.onrender.com'')
        = (\<not> (h = ascii ''localhost'' \<or> h = ascii ''127.0.0.1''))
   \<and> (FRONTEND_URL (CONFIG h) = ''https://nutrition-advisor-frontend.onrender.com'')
        = (\<not> (h = ascii ''localhost'' \<or> h = ascii ''127.0.0.1''))
   \<and> DEBUG_MODE (FEATURES (CONFIG h)) = (h = ascii ''localhost'')
   \<and> (h = h' \<longrightarrow> CONFIG h = CONFIG h')"
  by (simp add: CONFIG_def)

theorem C7_config_of_hostname_witness:
  "ENVIRONMENT (CONFIG (ascii ''localhost'')) = ''development''
   \<and> API_BASE_URL (CONFIG (ascii ''localhost'')) = ''http://localhost:5000''
   \<and> DEBUG_MODE (FEATURES (CONFIG (ascii ''localhost'')))
   \<and> CONFIG (ascii ''localhost'') = CONFIG (ascii ''localhost'')"
  using C7_config_of_hostname [of "ascii ''localhost''" "ascii ''localhost''"]
  by simp

lemma session_expired_effect:
  "localStorage (snd (session_expired E p)) = (localStorage p)(TOKEN_KEY E := None)"
  "href (snd (session_expired E p)) = ''index.html''"
  by (simp_all add: session_expired_def removeItem_def alert_def)

lemma hide_loading_frame:
  "localStorage (hide_loading l p) = localStorage p" "href (hide_loading l p) = href p"
  by (simp_all add: hide_loading_def set_doc_def)

text \<open>
  C1, as amended. In the revision with the session-expiry branch (part 003), a response
  with status 401 removes the stored token from local storage and sends the window to
  \<open>index.html\<close>, and every other outcome of the call leaves local storage as it
  was. The other revision of the dashboard script (part 002) has no such branch: its
  \<open>makeApiCall\<close> leaves local storage and the window's address as they were for
  every outcome, status 401 included.
\<close>

theorem C1_makeApiCall_401:
  "(status_of (server E (api_request E endpoint method data p)) = Some 401 \<longrightarrow>
      localStorage (snd (makeApiCall Part003 E endpoint method data showLoading p))
        = (localStorage p)(TOKEN_KEY E := None)
      \<and> href (snd (makeApiCall Part003 E endpoint method data showLoading p)) = ''index.html'')
   \<and> (status_of (server E (api_request E endpoint method data p)) \<noteq> Some 401 \<longrightarrow>
      localStorage (snd (makeApiCall Part003 E endpoint method data showLoading p))
        = localStorage p)
   \<and> localStorage (snd (makeApiCall Part002 E endpoint method data showLoading p))
        = localStorage p
   \<and> href (snd (makeApiCall Part002 E endpoint method data showLoading p)) = href p"
  by (cases "server E (api_request E endpoint method data p)")
     (auto simp add: makeApiCall_def Let_def session_expired_effect hide_loading_frame set_doc_def)

theorem C1_makeApiCall_401_witness:
  "status_of (server (answering (Json 401 JNull))
       (api_request (answering (Json 401 JNull)) (Lit ''/profile'') ''GET'' JNull dashboard0)) = Some 401
   \<and> localStorage (snd (makeApiCall Part003 (answering (Json 401 JNull)) (Lit ''/profile'') ''GET'' JNull False dashboard0)) ''token'' = None
   \<and> href (snd (makeApiCall Part003 (answering (Json 401 JNull)) (Lit ''/profile'') ''GET'' JNull False dashboard0)) = ''index.html''
   \<and> status_of (server (answering (Json 200 JNull))
       (api_request (answering (Json 200 JNull)) (Lit ''/profile'') ''GET'' JNull dashboard0)) = Some 200
   \<and> localStorage (snd (makeApiCall Part003 (answering (Json 200 JNull)) (Lit ''/profile'') ''GET'' JNull False dashboard0)) ''token''
       = Some (Chars (ascii ''t0k''))"
  using C1_makeApiCall_401 [of "answering (Json 401 JNull)" "Lit ''/profile''" "''GET''" JNull dashboard0 False]
    C1_makeApiCall_401 [of "answering (Json 200 JNull)" "Lit ''/profile''" "''GET''" JNull dashboard0 False]
  by (simp add: answering_def dashboard0_def TOKEN_KEY_def)

text \<open>
  The claim as stated fails on part 002: the server answers 401, and the token is still
  in local storage and the window still on the dashboard.
\<close>

theorem C1_part002_keeps_token:
  "status_of (server (answering (Json 401 JNull))
       (api_request (answering (Json 401 JNull)) (Lit ''/profile'') ''GET'' JNull dashboard0)) = Some 401
   \<and> localStorage (snd (makeApiCall Part002 (answering (Json 401 JNull)) (Lit ''/profile'') ''GET'' JNull False dashboard0)) ''token''
       = Some (Chars (ascii ''t0k''))
   \<and> href (snd (makeApiCall Part002 (answering (Json 401 JNull)) (Lit ''/profile'') ''GET'' JNull False dashboard0)) = ''dashboard.html''"
  by (simp add: makeApiCall_def Let_def answering_def dashboard0_def hide_loading_def)

lemma showMessage_frame:
  "requests (showMessage i k m p) = requests p"
  "localStorage (showMessage i k m p) = localStorage p"
  by (simp_all add: showMessage_def set_doc_def setTimeout_def Let_def)

lemma showMessage_doc:
  "doc (showMessage i k m p) (i, ''className'') = Some (Lit (''message '' @ k))"
  "doc (showMessage i k m p) (i, ''textContent'') = Some m"
  by (simp_all add: showMessage_def set_doc_def setTimeout_def Let_def)

lemma setTimeout_frame:
  "requests (snd (setTimeout f d p)) = requests p"
  "localStorage (snd (setTimeout f d p)) = localStorage p"
  "doc (snd (setTimeout f d p)) = doc p"
  by (simp_all add: setTimeout_def)

lemma makeApiCall_home_requests:
  "requests (snd (makeApiCall_home C E endpoint method data l p))
     = requests p @ [home_request C endpoint method data]"
  by (cases "server E (home_request C endpoint method data)"; cases l)
     (simp_all add: makeApiCall_home_def Let_def clear_loading_def set_doc_def)

lemma makeApiCall_home_storage:
  "localStorage (snd (makeApiCall_home C E endpoint method data l p)) = localStorage p"
  by (cases "server E (home_request C endpoint method data)"; cases l)
     (simp_all add: makeApiCall_home_def Let_def clear_loading_def set_doc_def)

lemma makeApiCall_home_result:
  "fst (makeApiCall_home C E endpoint method data l p)
     = (case server E (home_request C endpoint method data) of
          Json status result \<Rightarrow> Inr (status, result) | NetworkError \<Rightarrow> Inl NetworkErrorMessage
        | BadJson status \<Rightarrow> Inl NetworkErrorMessage)"
  by (cases "server E (home_request C endpoint method data)")
     (simp_all add: makeApiCall_home_def Let_def)

lemma show_failure_frame:
  "requests (show_failure H i f r p) = requests p"
  "localStorage (show_failure H i f r p) = localStorage p"
  by (simp_all add: show_failure_def showMessage_frame split: sum.splits)

lemma truthy_field: "truthy (field data k) \<longleftrightarrow> field_text data k \<noteq> []"
  by (simp add: field_def field_text_def split: option.splits)

lemma registerSubmit_requests:
  "requests (registerSubmit H C E data p)
     = (if field_text data ''name'' \<noteq> [] \<and> field_text data ''email'' \<noteq> []
           \<and> 6 \<le> length (field_text data ''password'')
        then requests p @ [home_request C (Lit ''/register'') ''POST'' (form_object data)]
        else requests p)"
proof -
  obtain r q where rq: "makeApiCall_home C E (Lit ''/register'') ''POST'' (form_object data)
      (Some ''registerMessage'') p = (r, q)"
    by (cases "makeApiCall_home C E (Lit ''/register'') ''POST'' (form_object data)
      (Some ''registerMessage'') p")
  have q: "requests q = requests p @ [home_request C (Lit ''/register'') ''POST'' (form_object data)]"
    using makeApiCall_home_requests [of C E "Lit ''/register''" "''POST''" "form_object data"
        "Some ''registerMessage''" p] rq by simp
  show ?thesis
    using q rq
    by (auto simp add: registerSubmit_def truthy_field showMessage_frame show_failure_frame
        setTimeout_frame split: sum.splits prod.splits)
qed

lemma registerSubmit_ok:
  assumes "field_text data ''name'' \<noteq> []" "field_text data ''email'' \<noteq> []"
    "6 \<le> length (field_text data ''password'')"
    "server E (home_request C (Lit ''/register'') ''POST'' (form_object data)) = Json status result"
    "ok status"
  shows "doc (registerSubmit H C E data p) (''registerMessage'', ''className'')
           = Some (Lit ''message success'')"
    and "doc (registerSubmit H C E data p) (''registerMessage'', ''textContent'')
           = Some (register_success_text H)"
proof -
  have ne: "field_text data ''password'' \<noteq> []"
    using assms(3) by auto
  show "doc (registerSubmit H C E data p) (''registerMessage'', ''className'')
           = Some (Lit ''message success'')"
    using assms ne
    by (simp add: registerSubmit_def truthy_field makeApiCall_home_def Let_def
        setTimeout_frame showMessage_doc)
  show "doc (registerSubmit H C E data p) (''registerMessage'', ''textContent'')
           = Some (register_success_text H)"
    using assms ne
    by (simp add: registerSubmit_def truthy_field makeApiCall_home_def Let_def
        setTimeout_frame showMessage_doc)
qed

lemma registerSubmit_short:
  assumes "length (field_text data ''password'') < 6"
  shows "doc (registerSubmit H C E data p) (''registerMessage'', ''className'')
           = Some (Lit ''message error'')"
  using assms by (simp add: registerSubmit_def truthy_field showMessage_doc)

text \<open>
  C2, as amended. In both revisions of the home page script: when the name, email and
  password entries of the registration form are non-empty and the password has at
  least 6 code units, the handler issues exactly one request, a POST to
  \<open>/register\<close> with the form's entries, and if the response has a 2xx status and a
  body that parses as JSON, the success message is shown; when the password has fewer
  than 6 code units, no request is issued and an error message is shown.
\<close>

theorem C2_registerSubmit:
  "(field_text data ''name'' \<noteq> [] \<and> field_text data ''email'' \<noteq> []
      \<and> 6 \<le> length (field_text data ''password'') \<longrightarrow>
      requests (registerSubmit H C E data p)
        = requests p @ [home_request C (Lit ''/register'') ''POST'' (form_object data)]
      \<and> (server E (home_request C (Lit ''/register'') ''POST'' (form_object data))
            = Json status result \<and> ok status \<longrightarrow>
          doc (registerSubmit H C E data p) (''registerMessage'', ''className'')
            = Some (Lit ''message success'')
          \<and> doc (registerSubmit H C E data p) (''registerMessage'', ''textContent'')
            = Some (register_success_text H)))
   \<and> (length (field_text data ''password'') < 6 \<longrightarrow>
      requests (registerSubmit H C E data p) = requests p
      \<and> doc (registerSubmit H C E data p) (''registerMessage'', ''className'')
            = Some (Lit ''message error''))"
  using registerSubmit_ok [of data E C status result H p] registerSubmit_short [of data H C E p]
  by (simp add: registerSubmit_requests)

theorem C2_registerSubmit_witness:
  "field_text register_form ''name'' \<noteq> [] \<and> field_text register_form ''email'' \<noteq> []
   \<and> 6 \<le> length (field_text register_form ''password'')
   \<and> requests (registerSubmit HomeB (CONFIG (ascii ''localhost'')) (answering (Json 201 JNull))
          register_form home0)
       = [home_request (CONFIG (ascii ''localhost'')) (Lit ''/register'') ''POST''
            (form_object register_form)]
   \<and> doc (registerSubmit HomeB (CONFIG (ascii ''localhost'')) (answering (Json 201 JNull))
          register_form home0) (''registerMessage'', ''className'')
       = Some (Lit ''message success'')
   \<and> length (field_text short_password_form ''password'') < 6
   \<and> requests (registerSubmit HomeB (CONFIG (ascii ''localhost'')) (answering (Json 201 JNull))
          short_password_form home0) = []
   \<and> doc (registerSubmit HomeB (CONFIG (ascii ''localhost'')) (answering (Json 201 JNull))
          short_password_form home0) (''registerMessage'', ''className'')
       = Some (Lit ''message error'')"
  using C2_registerSubmit [of register_form HomeB "CONFIG (ascii ''localhost'')"
      "answering (Json 201 JNull)" home0 201 JNull]
    C2_registerSubmit [of short_password_form HomeB "CONFIG (ascii ''localhost'')"
      "answering (Json 201 JNull)" home0 201 JNull]
  by (simp add: register_form_def short_password_form_def field_text_def ascii_def answering_def
      home0_def dashboard0_def ok_def)

text \<open>
  The claim as stated fails on a 2xx response whose body does not parse: the call
  throws, and the handler shows the error message.
\<close>

theorem C2_unparsable_body:
  "field_text register_form ''name'' \<noteq> [] \<and> field_text register_form ''email'' \<noteq> []
   \<and> 6 \<le> length (field_text register_form ''password'')
   \<and> status_of (server (answering (BadJson 200))
         (home_request (CONFIG (ascii ''localhost'')) (Lit ''/register'') ''POST''
            (form_object register_form))) = Some 200
   \<and> ok 200
   \<and> doc (registerSubmit HomeA (CONFIG (ascii ''localhost'')) (answering (BadJson 200))
          register_form home0) (''registerMessage'', ''className'')
       = Some (Lit ''message error'')
   \<and> doc (registerSubmit HomeA (CONFIG (ascii ''localhost'')) (answering (BadJson 200))
          register_form home0) (''registerMessage'', ''textContent'')
       = Some (MessageOf NetworkErrorMessage)"
  by (simp add: register_form_def field_text_def field_def ascii_def answering_def ok_def
      registerSubmit_def makeApiCall_home_def Let_def showMessage_doc)

lemma ascii_eq_Nil: "ascii s = [] \<longleftrightarrow> s = []"
  by (simp add: ascii_def)

lemma login_success_storage:
  assumes "get_prop result ''token'' = Inr tok"
    "get_prop result ''user'' = Inr u" "get_prop u ''id'' = Inr i"
    "get_prop u ''name'' = Inr n" "get_prop u ''email'' = Inr m"
  shows "localStorage (login_success H C E result p)
     = (localStorage p)
         (JWT_TOKEN (STORAGE_KEYS C) \<mapsto> ToString tok,
          USER_PREFERENCES (STORAGE_KEYS C) \<mapsto>
            Stringify [(''user_id'', i), (''name'', n), (''email'', m),
                       (''loginTime'', JStr (timestamp E))])"
  using assms
  by (simp add: login_success_def user_fields_def bindE_def Let_def setItem_def
      showMessage_frame setTimeout_frame)

lemma clear_loading_storage: "localStorage (clear_loading l p) = localStorage p"
  by (cases l) (simp_all add: clear_loading_def set_doc_def)

lemma loginSubmit_not_ok:
  assumes "status_of (server E (home_request C (Lit ''/login'') ''POST'' (form_object data))) = Some s"
    "\<not> ok s"
  shows "localStorage (loginSubmit H C E data p) = localStorage p"
  using assms
  by (cases "server E (home_request C (Lit ''/login'') ''POST'' (form_object data))")
     (simp_all add: loginSubmit_def makeApiCall_home_def Let_def showMessage_frame
        show_failure_frame clear_loading_storage set_doc_def)

lemma loginSubmit_ok:
  assumes "truthy (field data ''email'')" "truthy (field data ''password'')"
    "server E (home_request C (Lit ''/login'') ''POST'' (form_object data)) = Json s result"
    "ok s"
  shows "localStorage (loginSubmit H C E data p)
     = localStorage (login_success H C E result
         (snd (makeApiCall_home C E (Lit ''/login'') ''POST'' (form_object data)
            (Some ''loginMessage'') p)))"
  using assms by (simp add: loginSubmit_def makeApiCall_home_def Let_def)

lemma set_message_storage: "localStorage (set_message c m p) = localStorage p"
  by (simp add: set_message_def set_doc_def)

lemma legacy_ok_storage:
  assumes "get_prop result ''token'' = Inr tok"
  shows "localStorage (legacy_ok L result p) = (localStorage p)(''token'' \<mapsto> ToString tok)"
  using assms
  by (cases L) (simp_all add: Let_def setItem_def set_message_storage setTimeout_frame set_message_def set_doc_def)

lemma loginSubmit_legacy_not_ok:
  assumes "status_of (server E (login_request L data)) = Some s" "\<not> ok s"
  shows "localStorage (loginSubmit_legacy L E data p) = localStorage p"
  using assms
  by (cases "server E (login_request L data)")
     (simp_all add: loginSubmit_legacy_def Let_def set_message_storage set_doc_def
        split: sum.splits)

text \<open>
  C6, as amended. The login handler of the home page script (both revisions), submitted
  with a non-empty email and password: when the response has a 2xx status and a JSON
  body whose \<open>user\<close> is neither undefined nor null, local storage gains the token
  under the JWT key and the preferences blob under the preferences key, and nothing
  else changes in it. The earlier handlers (public/script.js and part 000), on a 2xx
  JSON response, store the token under the key \<open>token\<close> and no preferences blob.
  In all four handlers a response whose status is not 2xx leaves local storage as it
  was.
\<close>

theorem C6_login_storage:
  "(truthy (field data ''email'') \<and> truthy (field data ''password'')
      \<and> server E (home_request C (Lit ''/login'') ''POST'' (form_object data)) = Json s result
      \<and> ok s \<and> get_prop result ''token'' = Inr tok
      \<and> get_prop result ''user'' = Inr u \<and> get_prop u ''id'' = Inr i
      \<and> get_prop u ''name'' = Inr n \<and> get_prop u ''email'' = Inr m \<longrightarrow>
      localStorage (loginSubmit H C E data p)
        = (localStorage p)
            (JWT_TOKEN (STORAGE_KEYS C) \<mapsto> ToString tok,
             USER_PREFERENCES (STORAGE_KEYS C) \<mapsto>
               Stringify [(''user_id'', i), (''name'', n), (''email'', m),
                          (''loginTime'', JStr (timestamp E))]))
   \<and> (status_of (server E (home_request C (Lit ''/login'') ''POST'' (form_object data))) = Some s'
        \<and> \<not> ok s' \<longrightarrow>
      localStorage (loginSubmit H C E data p) = localStorage p)
   \<and> (server E (login_request L data) = Json s result \<and> ok s
        \<and> get_prop result ''token'' = Inr tok \<longrightarrow>
      localStorage (loginSubmit_legacy L E data p) = (localStorage p)(''token'' \<mapsto> ToString tok))
   \<and> (status_of (server E (login_request L data)) = Some s' \<and> \<not> ok s' \<longrightarrow>
      localStorage (loginSubmit_legacy L E data p) = localStorage p)"
proof (intro conjI impI)
  assume h: "truthy (field data ''email'') \<and> truthy (field data ''password'')
      \<and> server E (home_request C (Lit ''/login'') ''POST'' (form_object data)) = Json s result
      \<and> ok s \<and> get_prop result ''token'' = Inr tok
      \<and> get_prop result ''user'' = Inr u \<and> get_prop u ''id'' = Inr i
      \<and> get_prop u ''name'' = Inr n \<and> get_prop u ''email'' = Inr m"
  then show "localStorage (loginSubmit H C E data p)
        = (localStorage p)
            (JWT_TOKEN (STORAGE_KEYS C) \<mapsto> ToString tok,
             USER_PREFERENCES (STORAGE_KEYS C) \<mapsto>
               Stringify [(''user_id'', i), (''name'', n), (''email'', m),
                          (''loginTime'', JStr (timestamp E))])"
    by (simp add: loginSubmit_ok login_success_storage makeApiCall_home_storage)
next
  assume "status_of (server E (home_request C (Lit ''/login'') ''POST'' (form_object data))) = Some s'
        \<and> \<not> ok s'"
  then show "localStorage (loginSubmit H C E data p) = localStorage p"
    by (simp add: loginSubmit_not_ok)
next
  assume "server E (login_request L data) = Json s result \<and> ok s
        \<and> get_prop result ''token'' = Inr tok"
  then show "localStorage (loginSubmit_legacy L E data p)
      = (localStorage p)(''token'' \<mapsto> ToString tok)"
    by (simp add: loginSubmit_legacy_def Let_def legacy_ok_storage)
next
  assume "status_of (server E (login_request L data)) = Some s' \<and> \<not> ok s'"
  then show "localStorage (loginSubmit_legacy L E data p) = localStorage p"
    by (simp add: loginSubmit_legacy_not_ok)
qed

theorem C6_login_storage_witness:
  "localStorage (loginSubmit HomeA (CONFIG (ascii ''example.org'')) (answering (Json 200 login_body))
       login_form home0)
     = [''nutrition_advisor_token'' \<mapsto> ToString (JStr (ascii ''abc'')),
        ''nutrition_advisor_prefs'' \<mapsto>
          Stringify [(''user_id'', JNum (Fin 7)), (''name'', JStr (ascii ''Ann'')),
                     (''email'', JStr (ascii ''ann@example.org'')),
                     (''loginTime'', JStr (ascii ''2025-01-31T12:00:00.000Z''))]]
   \<and> localStorage (loginSubmit_legacy Part000 (answering (Json 200 login_body)) login_form home0)
     = [''token'' \<mapsto> ToString (JStr (ascii ''abc''))]
   \<and> \<not> ok 401
   \<and> localStorage (loginSubmit HomeA (CONFIG (ascii ''example.org'')) (answering (Json 401 JNull))
       login_form home0) = Map.empty
   \<and> localStorage (loginSubmit_legacy ScriptJs (answering (Json 401 JNull)) login_form home0)
     = Map.empty"
  using C6_login_storage [of login_form "answering (Json 200 login_body)"
      "CONFIG (ascii ''example.org'')" 200 login_body "JStr (ascii ''abc'')"
      "JObj [(ascii ''id'', JNum (Fin 7)), (ascii ''name'', JStr (ascii ''Ann'')),
             (ascii ''email'', JStr (ascii ''ann@example.org''))]"
      "JNum (Fin 7)" "JStr (ascii ''Ann'')" "JStr (ascii ''ann@example.org'')" HomeA home0 401 Part000]
    C6_login_storage [of login_form "answering (Json 401 JNull)"
      "CONFIG (ascii ''example.org'')" 401 JNull JNull JNull JNull JNull JNull HomeA home0 401 ScriptJs]
  by (simp add: login_form_def login_body_def field_def answering_def home0_def dashboard0_def
      ok_def ascii_inj ascii_eq_Nil CONFIG_def)

text \<open>
  The claim as stated fails on a 2xx response in three ways: the handlers of
  public/script.js and of part 000 store the token alone, and the home page handler
  stores the token alone when the body has no \<open>user\<close>.
\<close>

theorem C6_token_without_preferences:
  "ok 200
   \<and> localStorage (loginSubmit_legacy ScriptJs (answering (Json 200 login_body)) login_form home0)
     = [''token'' \<mapsto> ToString (JStr (ascii ''abc''))]
   \<and> localStorage (loginSubmit_legacy Part000 (answering (Json 200 login_body)) login_form home0)
     = [''token'' \<mapsto> ToString (JStr (ascii ''abc''))]
   \<and> localStorage (loginSubmit HomeB (CONFIG (ascii ''example.org''))
         (answering (Json 200 token_only_body)) login_form home0)
     = [''nutrition_advisor_token'' \<mapsto> ToString (JStr (ascii ''abc''))]"
  by (simp add: login_form_def login_body_def token_only_body_def field_def answering_def
      home0_def dashboard0_def ok_def ascii_inj ascii_eq_Nil CONFIG_def loginSubmit_legacy_def Let_def
      setItem_def set_message_def set_doc_def setTimeout_def loginSubmit_def
      makeApiCall_home_def clear_loading_def login_success_def user_fields_def bindE_def
      showMessage_def)

lemma steady_refl: "steady p p"
  by (simp add: steady_def)

lemma steady_trans: "steady p q \<Longrightarrow> steady q r \<Longrightarrow> steady p r"
  by (simp add: steady_def)

lemma steady_set_doc: "steady p (set_doc i k v p)"
  by (simp add: steady_def set_doc_def)

lemma requests_set_doc: "requests (set_doc i k v p) = requests p"
  by (simp add: set_doc_def)

lemma api_request_steady: "steady p q \<Longrightarrow> api_request E ep m d q = api_request E ep m d p"
  by (simp add: steady_def api_request_def)

lemma makeApiCall_requests:
  "requests (snd (makeApiCall R E ep m d sl p)) = requests p @ [api_request E ep m d p]"
  by (cases "server E (api_request E ep m d p)")
     (simp_all add: makeApiCall_def Let_def session_expired_def hide_loading_def set_doc_def
        removeItem_def alert_def)

lemma makeApiCall_steady: "steady p (snd (makeApiCall R E ep m d sl p))"
  by (cases "server E (api_request E ep m d p)")
     (simp_all add: makeApiCall_def Let_def session_expired_def hide_loading_def set_doc_def
        removeItem_def alert_def steady_def)

lemma makeApiCall_ok:
  "(case fst (makeApiCall R E ep m d sl p) of Inl e \<Rightarrow> False | Inr (s, b) \<Rightarrow> ok s)
     = ok_json (server E (api_request E ep m d p))"
  by (cases "server E (api_request E ep m d p)")
     (auto simp add: makeApiCall_def Let_def session_expired_def ok_def)

lemma displayMeals_frame:
  "displayMeals meals p = Inr q \<Longrightarrow> requests q = requests p \<and> steady p q"
  by (auto simp add: displayMeals_def bindE_def set_doc_def steady_def
      split: sum.splits if_splits jsval.splits)

lemma show_stats_frame:
  "show_stats stats g p = Inr q \<Longrightarrow> requests q = requests p \<and> steady p q"
  by (auto simp add: show_stats_def bindE_def set_doc_def steady_def split: sum.splits)

lemma loadTodaysMeals_requests:
  "requests (loadTodaysMeals R E p) = requests p @ [meals_request E p]"
proof -
  obtain r q where rq: "makeApiCall R E (Cat (Lit ''/meals?date='') (Chars (today E))) ''GET''
      JNull False p = (r, q)"
    by (cases "makeApiCall R E (Cat (Lit ''/meals?date='') (Chars (today E))) ''GET'' JNull False p")
  have q: "requests q = requests p @ [meals_request E p]"
    using makeApiCall_requests [of R E "Cat (Lit ''/meals?date='') (Chars (today E))" "''GET''"
        JNull False p] rq
    by (simp add: meals_request_def)
  show ?thesis
    using q rq
    by (auto simp add: loadTodaysMeals_def split: sum.splits dest: displayMeals_frame)
qed

lemma loadMealStatsWithGoals_requests:
  "requests (loadMealStatsWithGoals R E p) = requests p @ [stats_request E p, profile_request E p]"
proof -
  obtain r1 q1 where c1: "makeApiCall R E (Lit ''/meals/stats'') ''GET'' JNull False p = (r1, q1)"
    by (cases "makeApiCall R E (Lit ''/meals/stats'') ''GET'' JNull False p")
  obtain r2 q2 where c2: "makeApiCall R E (Lit ''/profile'') ''GET'' JNull False q1 = (r2, q2)"
    by (cases "makeApiCall R E (Lit ''/profile'') ''GET'' JNull False q1")
  have s1: "steady p q1"
    using makeApiCall_steady [of p R E "Lit ''/meals/stats''" "''GET''" JNull False] c1 by simp
  have q1: "requests q1 = requests p @ [stats_request E p]"
    using makeApiCall_requests [of R E "Lit ''/meals/stats''" "''GET''" JNull False p] c1
    by (simp add: stats_request_def)
  have q2: "requests q2 = requests p @ [stats_request E p, profile_request E p]"
    using makeApiCall_requests [of R E "Lit ''/profile''" "''GET''" JNull False q1] c2 q1
      api_request_steady [OF s1, of E "Lit ''/profile''" "''GET''" JNull]
    by (simp add: profile_request_def)
  show ?thesis
    using c1 c2 q2
    by (auto simp add: loadMealStatsWithGoals_def bindE_def
        split: sum.splits dest: show_stats_frame)
qed

lemma loadMealStatsWithGoals_steady: "steady p (loadMealStatsWithGoals R E p)"
proof -
  obtain r1 q1 where c1: "makeApiCall R E (Lit ''/meals/stats'') ''GET'' JNull False p = (r1, q1)"
    by (cases "makeApiCall R E (Lit ''/meals/stats'') ''GET'' JNull False p")
  obtain r2 q2 where c2: "makeApiCall R E (Lit ''/profile'') ''GET'' JNull False q1 = (r2, q2)"
    by (cases "makeApiCall R E (Lit ''/profile'') ''GET'' JNull False q1")
  have s1: "steady p q1"
    using makeApiCall_steady [of p R E "Lit ''/meals/stats''" "''GET''" JNull False] c1 by simp
  have s2: "steady q1 q2"
    using makeApiCall_steady [of q1 R E "Lit ''/profile''" "''GET''" JNull False] c2 by simp
  have s: "steady p q2"
    using s1 s2 by (rule steady_trans)
  show ?thesis
    using c1 c2 s
    by (auto simp add: loadMealStatsWithGoals_def bindE_def
        split: sum.splits dest!: show_stats_frame intro: steady_trans)
qed

lemma deleteMeal_requests:
  "requests (deleteMeal R E mealId p) =
     requests p @
       (if confirm_answer E
        then delete_request E mealId p #
               (if ok_json (server E (delete_request E mealId p))
                then [stats_request E p, profile_request E p, meals_request E p]
                else [])
        else [])"
proof (cases "confirm_answer E")
  case False
  then show ?thesis by (simp add: deleteMeal_def)
next
  case True
  obtain r q where c: "makeApiCall R E (Cat (Lit ''/meal/delete/'') (Chars mealId)) ''DELETE''
      JNull False p = (r, q)"
    by (cases "makeApiCall R E (Cat (Lit ''/meal/delete/'') (Chars mealId)) ''DELETE'' JNull False p")
  have sq: "steady p q"
    using makeApiCall_steady [of p R E "Cat (Lit ''/meal/delete/'') (Chars mealId)" "''DELETE''"
        JNull False] c by simp
  have rq: "requests q = requests p @ [delete_request E mealId p]"
    using makeApiCall_requests [of R E "Cat (Lit ''/meal/delete/'') (Chars mealId)" "''DELETE''"
        JNull False p] c by (simp add: delete_request_def)
  have okq: "(case r of Inl e \<Rightarrow> False | Inr (s, b) \<Rightarrow> ok s)
       = ok_json (server E (delete_request E mealId p))"
    using makeApiCall_ok [of R E "Cat (Lit ''/meal/delete/'') (Chars mealId)" "''DELETE''"
        JNull False p] c by (simp add: delete_request_def)
  have same: "stats_request E q = stats_request E p" "profile_request E q = profile_request E p"
    using sq by (simp_all add: stats_request_def profile_request_def api_request_steady)
  have sl: "steady p (loadMealStatsWithGoals R E q)"
    using sq loadMealStatsWithGoals_steady [of q R E] by (rule steady_trans)
  have meals: "meals_request E (loadMealStatsWithGoals R E q) = meals_request E p"
    using sl by (simp add: meals_request_def api_request_steady)
  show ?thesis
    using True c rq okq same meals
    by (auto simp add: deleteMeal_def alert_def loadTodaysMeals_requests
        loadMealStatsWithGoals_requests split: sum.splits)
qed

text \<open>
  C5. When the user declines the confirmation, \<open>deleteMeal\<close> changes nothing: no
  request is issued. The statistics, the profile that goes with them, or today's meals
  are requested only when the user confirmed and the DELETE response has a 2xx status.
  Exactly: after a confirmation the DELETE request is issued, and the three requests
  follow it when the response is 2xx with a body that parses, and do not otherwise.
  This holds in both revisions of the dashboard script.
\<close>

theorem C5_deleteMeal:
  "(\<not> confirm_answer E \<longrightarrow> deleteMeal R E mealId p = p \<and> issued p (deleteMeal R E mealId p) = [])
   \<and> ((stats_request E p \<in> set (issued p (deleteMeal R E mealId p))
        \<or> profile_request E p \<in> set (issued p (deleteMeal R E mealId p))
        \<or> meals_request E p \<in> set (issued p (deleteMeal R E mealId p))) \<longrightarrow>
       confirm_answer E
       \<and> (\<exists>status. status_of (server E (delete_request E mealId p)) = Some status \<and> ok status))
   \<and> issued p (deleteMeal R E mealId p) =
       (if confirm_answer E
        then delete_request E mealId p #
               (if ok_json (server E (delete_request E mealId p))
                then [stats_request E p, profile_request E p, meals_request E p]
                else [])
        else [])"
proof -
  have i: "issued p (deleteMeal R E mealId p) =
       (if confirm_answer E
        then delete_request E mealId p #
               (if ok_json (server E (delete_request E mealId p))
                then [stats_request E p, profile_request E p, meals_request E p]
                else [])
        else [])"
    by (simp add: issued_def deleteMeal_requests)
  have d: "stats_request E p \<noteq> delete_request E mealId p"
    "profile_request E p \<noteq> delete_request E mealId p"
    "meals_request E p \<noteq> delete_request E mealId p"
    by (simp_all add: stats_request_def profile_request_def meals_request_def delete_request_def
        api_request_def)
  have o: "ok_json (server E (delete_request E mealId p)) \<Longrightarrow>
      \<exists>status. status_of (server E (delete_request E mealId p)) = Some status \<and> ok status"
    by (cases "server E (delete_request E mealId p)") simp_all
  show ?thesis
    unfolding i using d o by (auto simp add: deleteMeal_def split: if_splits)
qed

theorem C5_deleteMeal_witness:
  "confirm_answer (answering (Json 200 JNull))
   \<and> status_of (server (answering (Json 200 JNull))
         (delete_request (answering (Json 200 JNull)) (ascii ''m1'') dashboard0)) = Some 200
   \<and> ok 200
   \<and> issued dashboard0 (deleteMeal Part003 (answering (Json 200 JNull)) (ascii ''m1'') dashboard0)
       = [delete_request (answering (Json 200 JNull)) (ascii ''m1'') dashboard0,
          stats_request (answering (Json 200 JNull)) dashboard0,
          profile_request (answering (Json 200 JNull)) dashboard0,
          meals_request (answering (Json 200 JNull)) dashboard0]
   \<and> deleteMeal Part003 ((answering (Json 200 JNull))\<lparr>confirm_answer := False\<rparr>)
         (ascii ''m1'') dashboard0 = dashboard0"
  using C5_deleteMeal [of "answering (Json 200 JNull)" Part003 "ascii ''m1''" dashboard0]
    C5_deleteMeal [of "(answering (Json 200 JNull))\<lparr>confirm_answer := False\<rparr>" Part003
      "ascii ''m1''" dashboard0]
  by (simp add: answering_def ok_def)

lemma js_min_not_above: "\<not> js_gt (js_min x (Fin b)) (Fin b)"
  by (cases x) simp_all

lemma makeApiCall_doc:
  "doc (snd (makeApiCall R E ep m d False p)) = doc p"
  by (cases "server E (api_request E ep m d p)")
     (simp_all add: makeApiCall_def Let_def session_expired_def hide_loading_def
        removeItem_def alert_def)

lemma makeApiCall_json:
  assumes "server E (api_request E ep m d p) = Json s b" "ok s"
  shows "fst (makeApiCall R E ep m d sl p) = Inr (s, b)"
  using assms by (auto simp add: makeApiCall_def Let_def ok_def)

lemma makeApiCall_not_ok:
  assumes "\<not> ok_json (server E (api_request E ep m d p))"
  shows "case fst (makeApiCall R E ep m d sl p) of Inl e \<Rightarrow> True | Inr (s, b) \<Rightarrow> \<not> ok s"
  using assms
  by (cases "server E (api_request E ep m d p)")
     (auto simp add: makeApiCall_def Let_def session_expired_def ok_def)

lemma show_stats_progress:
  assumes "get_prop stats ''goal_progress'' = Inr g"
  shows "\<exists>q. show_stats stats v p = Inr q
           \<and> doc q (''goalProgress'', ''textContent'') = Some (Cat (ToString v) (Lit ''%''))"
  using assms
  by (cases stats) (simp_all add: show_stats_def bindE_def set_doc_def)

lemma loadMealStatsWithGoals_shows:
  assumes st: "server E (stats_request E p) = Json s1 stats" "ok s1"
    and g: "goalProgress E stats
              (fst (makeApiCall R E (Lit ''/profile'') ''GET'' JNull False
                     (snd (makeApiCall R E (Lit ''/meals/stats'') ''GET'' JNull False p)))) = Inr v"
    and r: "get_prop stats ''goal_progress'' = Inr g0"
  shows "doc (loadMealStatsWithGoals R E p) (''goalProgress'', ''textContent'')
           = Some (Cat (ToString v) (Lit ''%''))"
proof -
  obtain r1 q1 where c1: "makeApiCall R E (Lit ''/meals/stats'') ''GET'' JNull False p = (r1, q1)"
    by (cases "makeApiCall R E (Lit ''/meals/stats'') ''GET'' JNull False p")
  obtain r2 q2 where c2: "makeApiCall R E (Lit ''/profile'') ''GET'' JNull False q1 = (r2, q2)"
    by (cases "makeApiCall R E (Lit ''/profile'') ''GET'' JNull False q1")
  have r1: "r1 = Inr (s1, stats)"
    using makeApiCall_json [of E "Lit ''/meals/stats''" "''GET''" JNull p s1 stats R False] st c1
    by (simp add: stats_request_def)
  obtain q where q: "show_stats stats v q2 = Inr q"
    "doc q (''goalProgress'', ''textContent'') = Some (Cat (ToString v) (Lit ''%''))"
    using show_stats_progress [OF r, of v q2] by blast
  show ?thesis
    using c1 c2 r1 st(2) g q
    by (simp add: loadMealStatsWithGoals_def bindE_def)
qed

lemma profile_request_after:
  "api_request E (Lit ''/profile'') ''GET'' JNull
     (snd (makeApiCall R E (Lit ''/meals/stats'') ''GET'' JNull False p)) = profile_request E p"
  using makeApiCall_steady [of p R E "Lit ''/meals/stats''" "''GET''" JNull False]
  by (simp add: profile_request_def api_request_steady)

lemma goalProgress_personal:
  assumes "server E (profile_request E p) = Json s2 profile" "ok s2"
    "get_prop stats ''goal_progress'' = Inr g" "get_prop stats ''total_calories'' = Inr eaten"
    "get_prop profile ''dailyCalories'' = Inr daily" "truthy daily"
  shows "goalProgress E stats
           (fst (makeApiCall R E (Lit ''/profile'') ''GET'' JNull False
                  (snd (makeApiCall R E (Lit ''/meals/stats'') ''GET'' JNull False p))))
         = Inr (JNum (personal_progress E eaten daily))"
proof -
  have "fst (makeApiCall R E (Lit ''/profile'') ''GET'' JNull False
                  (snd (makeApiCall R E (Lit ''/meals/stats'') ''GET'' JNull False p)))
        = Inr (s2, profile)"
    using assms(1,2) by (intro makeApiCall_json) (simp_all add: profile_request_after)
  then show ?thesis
    using assms by (simp add: goalProgress_def bindE_def)
qed

lemma goalProgress_server:
  assumes "get_prop stats ''goal_progress'' = Inr g"
    "\<not> ok_json (server E (profile_request E p))
     \<or> (server E (profile_request E p) = Json s2 profile
        \<and> get_prop profile ''dailyCalories'' = Inr daily \<and> \<not> truthy daily)"
  shows "goalProgress E stats
           (fst (makeApiCall R E (Lit ''/profile'') ''GET'' JNull False
                  (snd (makeApiCall R E (Lit ''/meals/stats'') ''GET'' JNull False p))))
         = Inr g"
proof (cases "ok_json (server E (profile_request E p))")
  case False
  then have "case fst (makeApiCall R E (Lit ''/profile'') ''GET'' JNull False
                  (snd (makeApiCall R E (Lit ''/meals/stats'') ''GET'' JNull False p))) of
               Inl e \<Rightarrow> True | Inr (s, b) \<Rightarrow> \<not> ok s"
    by (intro makeApiCall_not_ok) (simp add: profile_request_after)
  then show ?thesis
    using assms(1) by (auto simp add: goalProgress_def bindE_def split: sum.splits)
next
  case True
  with assms(2) have h: "server E (profile_request E p) = Json s2 profile"
      "get_prop profile ''dailyCalories'' = Inr daily" "\<not> truthy daily" "ok s2"
    by auto
  have "fst (makeApiCall R E (Lit ''/profile'') ''GET'' JNull False
                  (snd (makeApiCall R E (Lit ''/meals/stats'') ''GET'' JNull False p)))
        = Inr (s2, profile)"
    using h(1,4) by (intro makeApiCall_json) (simp_all add: profile_request_after)
  then show ?thesis
    using assms(1) h by (simp add: goalProgress_def bindE_def)
qed

text \<open>
  C10, as amended. When the statistics call and the profile call both return an ok
  response and the profile's \<open>dailyCalories\<close> is truthy, the goal-progress field
  shows \<open>personal_progress\<close>, that is
  \<open>Math.min(Math.round((total_calories / dailyCalories) * 100), 100)\<close> with the
  quotient and then the product rounded to doubles, followed by a percent sign; this
  number is never greater than 100. When the profile call fails, or returns a status
  that is not ok, or \<open>dailyCalories\<close> is falsy, the field shows the server's
  \<open>goal_progress\<close> unchanged.
\<close>

theorem C10_goal_progress:
  "(server E (stats_request E p) = Json s1 stats \<and> ok s1
      \<and> server E (profile_request E p) = Json s2 profile \<and> ok s2
      \<and> get_prop stats ''goal_progress'' = Inr g
      \<and> get_prop stats ''total_calories'' = Inr eaten
      \<and> get_prop profile ''dailyCalories'' = Inr daily \<and> truthy daily \<longrightarrow>
      doc (loadMealStatsWithGoals R E p) (''goalProgress'', ''textContent'')
        = Some (Cat (ToString (JNum (personal_progress E eaten daily))) (Lit ''%''))
      \<and> \<not> js_gt (personal_progress E eaten daily) (Fin 100))
   \<and> (server E (stats_request E p) = Json s1 stats \<and> ok s1
      \<and> get_prop stats ''goal_progress'' = Inr g
      \<and> (\<not> ok_json (server E (profile_request E p))
          \<or> (server E (profile_request E p) = Json s2 profile
              \<and> get_prop profile ''dailyCalories'' = Inr daily \<and> \<not> truthy daily)) \<longrightarrow>
      doc (loadMealStatsWithGoals R E p) (''goalProgress'', ''textContent'')
        = Some (Cat (ToString g) (Lit ''%'')))"
proof (intro conjI impI)
  assume h: "server E (stats_request E p) = Json s1 stats \<and> ok s1
      \<and> server E (profile_request E p) = Json s2 profile \<and> ok s2
      \<and> get_prop stats ''goal_progress'' = Inr g
      \<and> get_prop stats ''total_calories'' = Inr eaten
      \<and> get_prop profile ''dailyCalories'' = Inr daily \<and> truthy daily"
  then have "goalProgress E stats
           (fst (makeApiCall R E (Lit ''/profile'') ''GET'' JNull False
                  (snd (makeApiCall R E (Lit ''/meals/stats'') ''GET'' JNull False p))))
         = Inr (JNum (personal_progress E eaten daily))"
    by (intro goalProgress_personal) auto
  with h show "doc (loadMealStatsWithGoals R E p) (''goalProgress'', ''textContent'')
        = Some (Cat (ToString (JNum (personal_progress E eaten daily))) (Lit ''%''))"
    by (intro loadMealStatsWithGoals_shows) auto
  show "\<not> js_gt (personal_progress E eaten daily) (Fin 100)"
    by (simp add: personal_progress_def js_min_not_above)
next
  assume h: "server E (stats_request E p) = Json s1 stats \<and> ok s1
      \<and> get_prop stats ''goal_progress'' = Inr g
      \<and> (\<not> ok_json (server E (profile_request E p))
          \<or> (server E (profile_request E p) = Json s2 profile
              \<and> get_prop profile ''dailyCalories'' = Inr daily \<and> \<not> truthy daily))"
  then have "goalProgress E stats
           (fst (makeApiCall R E (Lit ''/profile'') ''GET'' JNull False
                  (snd (makeApiCall R E (Lit ''/meals/stats'') ''GET'' JNull False p))))
         = Inr g"
    by (intro goalProgress_server) auto
  with h show "doc (loadMealStatsWithGoals R E p) (''goalProgress'', ''textContent'')
        = Some (Cat (ToString g) (Lit ''%''))"
    by (intro loadMealStatsWithGoals_shows) auto
qed

lemma progress_57_of_200:
  "js_min (js_round (js_mul (js_div (Fin 57) (Fin 200)) (Fin 100))) (Fin 100) = Fin 28"
  by code_simp

lemma personal_progress_57_of_200:
  "personal_progress E (JNum (Fin 57)) (JNum (Fin 200)) = Fin 28"
  unfolding personal_progress_def to_number.simps by (rule progress_57_of_200)

lemma claimed_57_of_200:
  "claimed_progress 57 200 = 29" "claimed_progress_double (Fin 57) (Fin 200) = Fin 29"
  by code_simp+

lemma tracker_answers:
  "server tracker (stats_request tracker dashboard0) = Json 200 stats_body"
  "server tracker (profile_request tracker dashboard0) = Json 200 profile_body"
  by (simp_all add: tracker_def answering_def stats_request_def profile_request_def
      api_request_def API_URL_def api_url_def)

theorem C10_goal_progress_witness:
  "doc (loadMealStatsWithGoals Part003 tracker dashboard0) (''goalProgress'', ''textContent'')
     = Some (Cat (ToString (JNum (Fin 28))) (Lit ''%''))
   \<and> \<not> js_gt (Fin 28) (Fin 100)
   \<and> doc (loadMealStatsWithGoals Part003 (answering (Json 200 stats_body)) dashboard0)
       (''goalProgress'', ''textContent'')
     = Some (Cat (ToString (JNum (Fin 3))) (Lit ''%''))"
  using C10_goal_progress [of tracker dashboard0 200 stats_body 200 profile_body "JNum (Fin 3)"
      "JNum (Fin 57)" "JNum (Fin 200)" Part003]
    C10_goal_progress [of "answering (Json 200 stats_body)" dashboard0 200 stats_body 200 stats_body
      "JNum (Fin 3)" "JNum (Fin 57)" JUndefined Part003]
  by (simp add: tracker_answers personal_progress_57_of_200 ok_def stats_body_def
      profile_body_def ascii_inj answering_def)

text \<open>
  The claim as stated fails where \<open>100 * total_calories / dailyCalories\<close> is a tie:
  with 57 calories of a goal of 200 the claimed value is round(28.5) = 29, and the page
  shows 28, because the double nearest to 57 / 200 times 100 is just below 28.5.
\<close>

theorem C10_rounds_below_the_claimed_value:
  "server tracker (stats_request tracker dashboard0) = Json 200 stats_body
   \<and> server tracker (profile_request tracker dashboard0) = Json 200 profile_body
   \<and> get_prop stats_body ''total_calories'' = Inr (JNum (Fin 57))
   \<and> get_prop profile_body ''dailyCalories'' = Inr (JNum (Fin 200))
   \<and> doc (loadMealStatsWithGoals Part003 tracker dashboard0) (''goalProgress'', ''textContent'')
     = Some (Cat (ToString (JNum (Fin 28))) (Lit ''%''))
   \<and> claimed_progress 57 200 = 29
   \<and> claimed_progress_double (Fin 57) (Fin 200) = Fin 29"
proof -
  have "goalProgress tracker stats_body
           (fst (makeApiCall Part003 tracker (Lit ''/profile'') ''GET'' JNull False
                  (snd (makeApiCall Part003 tracker (Lit ''/meals/stats'') ''GET'' JNull False
                     dashboard0))))
         = Inr (JNum (personal_progress tracker (JNum (Fin 57)) (JNum (Fin 200))))"
    by (rule goalProgress_personal [of tracker dashboard0 200 profile_body stats_body "JNum (Fin 3)"])
       (simp_all add: tracker_answers ok_def stats_body_def profile_body_def ascii_inj)
  then have "doc (loadMealStatsWithGoals Part003 tracker dashboard0)
        (''goalProgress'', ''textContent'')
     = Some (Cat (ToString (JNum (personal_progress tracker (JNum (Fin 57)) (JNum (Fin 200)))))
          (Lit ''%''))"
    by (intro loadMealStatsWithGoals_shows [of tracker dashboard0 200 stats_body _ _ "JNum (Fin 3)"])
       (simp_all add: tracker_answers ok_def stats_body_def ascii_inj)
  then show ?thesis
    by (simp add: tracker_answers claimed_57_of_200 personal_progress_57_of_200
        stats_body_def profile_body_def ascii_inj)
qed

lemma end_time_snoc:
  "end_time t (es @ [Input v]) = end_time t es"
  "end_time t (es @ [Elapse dt]) = end_time t es + dt"
  "end_time t (es @ [RunTimer i]) = end_time t es"
  by (induction t es rule: end_time.induct) simp_all

lemma last_input_snoc:
  "last_input t (es @ [Input v]) = Some (end_time t es, trim v)"
  "last_input t (es @ [Elapse dt]) = last_input t es"
  "last_input t (es @ [RunTimer i]) = last_input t es"
  by (induction t es rule: last_input.induct) simp_all

lemma no_pending:
  "(\<forall>x \<in> set ts. \<forall>q. snd (snd x) \<noteq> SearchFood q) \<Longrightarrow>
     concat (map (\<lambda>(i, due, f). case f of SearchFood q \<Rightarrow> [(due, q)] | _ \<Rightarrow> []) ts) = []"
proof (induction ts)
  case Nil
  show ?case by simp
next
  case (Cons a ts)
  obtain i due f where a: "a = (i, due, f)" by (cases a)
  from Cons.prems a have "\<forall>q. f \<noteq> SearchFood q" by simp
  then have "(case f of SearchFood q \<Rightarrow> [(due, q)] | _ \<Rightarrow> []) = []"
    by (cases f) simp_all
  with Cons a show ?case by simp
qed

lemma cleared_has_no_search:
  assumes "search_inv t es p"
  shows "\<forall>x \<in> set (timers (clearTimeout (searchTimeout p) p)). \<forall>q. snd (snd x) \<noteq> SearchFood q"
proof (cases "searchTimeout p")
  case None
  with assms show ?thesis
    by (auto simp add: search_inv_def clearTimeout_def)
next
  case (Some i)
  with assms show ?thesis
    by (auto simp add: search_inv_def clearTimeout_def)
qed

lemma cleared_frame:
  "now (clearTimeout x p) = now p" "next_timer (clearTimeout x p) = next_timer p"
  "requests (clearTimeout x p) = requests p"
  "set (timers (clearTimeout x p)) \<subseteq> set (timers p)"
  "distinct (map fst (timers p)) \<Longrightarrow> distinct (map fst (timers (clearTimeout x p)))"
  by (cases x; auto simp add: clearTimeout_def distinct_map_filter)+

lemma input_short:
  assumes "search_inv t es p" "length (trim v) < 2"
  shows "search_inv t (es @ [Input v]) (onSearchInput v p)"
    and "pending_searches (onSearchInput v p) = []"
    and "requests (onSearchInput v p) = requests p"
    and "doc (onSearchInput v p) (''foodSuggestions'', ''innerHTML'') = Some (Lit '''')"
proof -
  let ?p1 = "clearTimeout (searchTimeout p) p"
  have o: "onSearchInput v p = set_doc ''foodSuggestions'' ''innerHTML'' (Lit '''') ?p1"
    using assms(2) by (simp add: onSearchInput_def Let_def)
  have ns: "\<forall>x \<in> set (timers ?p1). \<forall>q. snd (snd x) \<noteq> SearchFood q"
    using assms(1) by (rule cleared_has_no_search)
  show "pending_searches (onSearchInput v p) = []"
    using ns by (simp add: o pending_searches_def set_doc_def no_pending)
  show "requests (onSearchInput v p) = requests p"
    by (simp add: o set_doc_def cleared_frame)
  show "doc (onSearchInput v p) (''foodSuggestions'', ''innerHTML'') = Some (Lit '''')"
    by (simp add: o set_doc_def)
  have "distinct (map fst (timers ?p1))"
    using assms(1) by (simp add: search_inv_def cleared_frame)
  moreover have "\<forall>x \<in> set (timers ?p1). fst x < next_timer p"
    using assms(1) cleared_frame(4) [of "searchTimeout p" p] by (auto simp add: search_inv_def)
  moreover have "now p = end_time t es"
    using assms(1) by (simp add: search_inv_def)
  ultimately show "search_inv t (es @ [Input v]) (onSearchInput v p)"
    using ns by (simp add: o search_inv_def set_doc_def cleared_frame end_time_snoc)
qed

lemma input_long:
  assumes "search_inv t es p" "\<not> length (trim v) < 2"
  shows "search_inv t (es @ [Input v]) (onSearchInput v p)"
    and "pending_searches (onSearchInput v p) = [(now p + 500, trim v)]"
    and "requests (onSearchInput v p) = requests p"
proof -
  let ?p1 = "clearTimeout (searchTimeout p) p"
  have o: "onSearchInput v p =
      ?p1\<lparr>timers := timers ?p1 @ [(next_timer p, now p + 500, SearchFood (trim v))],
          next_timer := next_timer p + 1, searchTimeout := Some (next_timer p)\<rparr>"
    using assms(2) by (simp add: onSearchInput_def Let_def setTimeout_def cleared_frame)
  have ns: "\<forall>x \<in> set (timers ?p1). \<forall>q. snd (snd x) \<noteq> SearchFood q"
    using assms(1) by (rule cleared_has_no_search)
  show "pending_searches (onSearchInput v p) = [(now p + 500, trim v)]"
    using ns by (simp add: o pending_searches_def no_pending)
  show "requests (onSearchInput v p) = requests p"
    by (simp add: o cleared_frame)
  have d: "distinct (map fst (timers ?p1))"
    using assms(1) by (simp add: search_inv_def cleared_frame)
  have f: "\<forall>x \<in> set (timers ?p1). fst x < next_timer p"
    using assms(1) cleared_frame(4) [of "searchTimeout p" p] by (auto simp add: search_inv_def)
  have n: "now p = end_time t es"
    using assms(1) by (simp add: search_inv_def)
  have fresh: "next_timer p \<notin> fst ` set (timers ?p1)"
    using f by auto
  show "search_inv t (es @ [Input v]) (onSearchInput v p)"
    unfolding search_inv_def o
    using d f n ns fresh assms(2)
    by (auto simp add: cleared_frame end_time_snoc last_input_snoc less_Suc_eq)
qed

lemma displayFoodSuggestions_frame:
  "displayFoodSuggestions foods p = Inr q \<Longrightarrow> requests q = requests p \<and> steady p q"
  by (auto simp add: displayFoodSuggestions_def bindE_def set_doc_def steady_def
      split: sum.splits if_splits jsval.splits)

lemma searchFood_frame:
  "steady p (searchFood R E query p)"
  "requests (searchFood R E query p)
     = requests p @ (if well_formed query then [search_request E query p] else [])"
proof -
  obtain r q where c: "makeApiCall R E (search_endpoint query) ''GET'' JNull False p = (r, q)"
    by (cases "makeApiCall R E (search_endpoint query) ''GET'' JNull False p")
  have sq: "steady p q"
    using makeApiCall_steady [of p R E "search_endpoint query" "''GET''" JNull False] c by simp
  have rq: "requests q = requests p @ [search_request E query p]"
    using makeApiCall_requests [of R E "search_endpoint query" "''GET''" JNull False p] c
    by (simp add: search_request_def)
  show "steady p (searchFood R E query p)"
    using c sq
    by (auto simp add: searchFood_def steady_refl bindE_def
        split: sum.splits dest!: displayFoodSuggestions_frame intro: steady_trans)
  show "requests (searchFood R E query p)
     = requests p @ (if well_formed query then [search_request E query p] else [])"
    using c rq
    by (auto simp add: searchFood_def bindE_def
        split: sum.splits dest!: displayFoodSuggestions_frame)
qed

lemma fire_steady: "steady p (fire R E f p)"
  by (cases f)
     (simp_all add: searchFood_frame closeModal_def showLogin_def set_doc_def steady_def [of p])

lemma fire_requests:
  "requests (fire R E f p)
     = requests p @ (case f of SearchFood q \<Rightarrow> if well_formed q then [search_request E q p] else []
                     | _ \<Rightarrow> [])"
  by (cases f) (simp_all add: searchFood_frame closeModal_def showLogin_def set_doc_def)

lemma run_timer_cases:
  "run_timer R E i p = p
   \<or> (\<exists>due f. (i, due, f) \<in> set (timers p) \<and> due \<le> now p
        \<and> run_timer R E i p
            = fire R E f (p\<lparr>timers := filter (\<lambda>(j, due, f). j \<noteq> i) (timers p)\<rparr>))"
proof (cases "find (\<lambda>(j, due, f). j = i) (timers p)")
  case None
  then show ?thesis by (simp add: run_timer_def)
next
  case (Some x)
  obtain j due f where x: "x = (j, due, f)" by (cases x)
  from Some x have "(j, due, f) \<in> set (timers p)" "j = i"
    by (auto simp add: find_Some_iff in_set_conv_nth)
  with Some x show ?thesis
    by (auto simp add: run_timer_def)
qed

lemma run_timer_inv:
  assumes "search_inv t es p"
  shows "search_inv t (es @ [RunTimer i]) (run_timer R E i p)"
proof -
  from run_timer_cases [of R E i p] show ?thesis
  proof
    assume "run_timer R E i p = p"
    with assms show ?thesis
      by (simp add: search_inv_def end_time_snoc last_input_snoc)
  next
    assume "\<exists>due f. (i, due, f) \<in> set (timers p) \<and> due \<le> now p
        \<and> run_timer R E i p
            = fire R E f (p\<lparr>timers := filter (\<lambda>(j, due, f). j \<noteq> i) (timers p)\<rparr>)"
    then obtain due f where r: "run_timer R E i p
        = fire R E f (p\<lparr>timers := filter (\<lambda>(j, due, f). j \<noteq> i) (timers p)\<rparr>)"
      by blast
    let ?p1 = "p\<lparr>timers := filter (\<lambda>(j, due, f). j \<noteq> i) (timers p)\<rparr>"
    have s: "steady ?p1 (fire R E f ?p1)" by (rule fire_steady)
    from assms have "search_inv t (es @ [RunTimer i]) ?p1"
      by (auto simp add: search_inv_def end_time_snoc last_input_snoc distinct_map_filter)
    with s show ?thesis
      unfolding r by (simp add: search_inv_def steady_def)
  qed
qed

lemma run_timer_issued:
  assumes "search_inv t es p" "issued p (run_timer R E i p) \<noteq> []"
  shows "\<exists>t' q. last_input t es = Some (t', q) \<and> 2 \<le> length q \<and> t' + 500 \<le> now p
           \<and> issued p (run_timer R E i p) = [search_request E q p]"
proof -
  from run_timer_cases [of R E i p] show ?thesis
  proof
    assume "run_timer R E i p = p"
    with assms(2) show ?thesis by (simp add: issued_def)
  next
    assume "\<exists>due f. (i, due, f) \<in> set (timers p) \<and> due \<le> now p
        \<and> run_timer R E i p
            = fire R E f (p\<lparr>timers := filter (\<lambda>(j, due, f). j \<noteq> i) (timers p)\<rparr>)"
    then obtain due f where m: "(i, due, f) \<in> set (timers p)" and d: "due \<le> now p"
      and r: "run_timer R E i p
        = fire R E f (p\<lparr>timers := filter (\<lambda>(j, due, f). j \<noteq> i) (timers p)\<rparr>)"
      by blast
    let ?p1 = "p\<lparr>timers := filter (\<lambda>(j, due, f). j \<noteq> i) (timers p)\<rparr>"
    have same: "search_request E q ?p1 = search_request E q p" for q
      by (simp add: search_request_def api_request_def)
    have "issued p (run_timer R E i p)
        = (case f of SearchFood q \<Rightarrow> if well_formed q then [search_request E q ?p1] else []
           | _ \<Rightarrow> [])"
      unfolding r issued_def by (simp add: fire_requests)
    then have i: "issued p (run_timer R E i p)
        = (case f of SearchFood q \<Rightarrow> if well_formed q then [search_request E q p] else []
           | _ \<Rightarrow> [])"
      by (cases f) (simp_all add: same)
    with assms(2) obtain q where f: "f = SearchFood q" and w: "well_formed q"
      by (cases f) (auto split: if_splits)
    from assms(1) m f obtain t' where "last_input t es = Some (t', q)" "due = t' + 500"
        "2 \<le> length q"
      by (fastforce simp add: search_inv_def)
    with d i f w show ?thesis by simp
  qed
qed

lemma step_inv:
  assumes "search_inv t es p"
  shows "search_inv t (es @ [e]) (step R E p e)"
proof (cases e)
  case (Input v)
  with assms show ?thesis
    using input_short(1) [of t es p v] input_long(1) [of t es p v]
    by (cases "length (trim v) < 2") simp_all
next
  case (Elapse dt)
  with assms show ?thesis
    by (simp add: search_inv_def end_time_snoc last_input_snoc)
next
  case (RunTimer i)
  with assms show ?thesis
    by (simp add: run_timer_inv)
qed

lemma run_inv:
  assumes "search_inv t [] p"
  shows "search_inv t es (run R E p es)"
proof (induction es rule: rev_induct)
  case Nil
  with assms show ?case by (simp add: run_def)
next
  case (snoc e es)
  then show ?case
    using step_inv [of t es "run R E p es" e R E] by (simp add: run_def)
qed

text \<open>
  C9. Let the food search run through any sequence of input events, waits and timer
  runs, from a page with no search pending. An input event issues no request and
  leaves no search pending but its own: none when its trimmed value has fewer than 2
  code units, and then the suggestion list is emptied; otherwise one search, for the
  trimmed value, due 500 ms after the event. Waiting issues no request. When running
  a timer issues a request, it is one search request, for the trimmed value of the
  last input event, that value has at least 2 code units, and at least 500 ms have
  passed since that event. So an event with a short query never gets a request, and a
  scheduled search is made only if no further input event comes within its 500 ms.
\<close>

theorem C9_debounced_search:
  "search_inv (now p0) [] p0 \<longrightarrow>
     (issued (run R E p0 es) (step R E (run R E p0 es) (Input v)) = []
      \<and> pending_searches (step R E (run R E p0 es) (Input v))
          = (if length (trim v) < 2 then [] else [(now (run R E p0 es) + 500, trim v)])
      \<and> (length (trim v) < 2 \<longrightarrow>
            doc (step R E (run R E p0 es) (Input v)) (''foodSuggestions'', ''innerHTML'')
              = Some (Lit [])))
   \<and> issued (run R E p0 es) (step R E (run R E p0 es) (Elapse dt)) = []
   \<and> (issued (run R E p0 es) (step R E (run R E p0 es) (RunTimer i)) \<noteq> [] \<longrightarrow>
        (\<exists>t' q. last_input (now p0) es = Some (t', q) \<and> 2 \<le> length q
           \<and> t' + 500 \<le> now (run R E p0 es)
           \<and> issued (run R E p0 es) (step R E (run R E p0 es) (RunTimer i))
               = [search_request E q (run R E p0 es)]))"
proof (intro impI)
  assume "search_inv (now p0) [] p0"
  then have inv: "search_inv (now p0) es (run R E p0 es)"
    by (rule run_inv)
  show "(issued (run R E p0 es) (step R E (run R E p0 es) (Input v)) = []
      \<and> pending_searches (step R E (run R E p0 es) (Input v))
          = (if length (trim v) < 2 then [] else [(now (run R E p0 es) + 500, trim v)])
      \<and> (length (trim v) < 2 \<longrightarrow>
            doc (step R E (run R E p0 es) (Input v)) (''foodSuggestions'', ''innerHTML'')
              = Some (Lit [])))
   \<and> issued (run R E p0 es) (step R E (run R E p0 es) (Elapse dt)) = []
   \<and> (issued (run R E p0 es) (step R E (run R E p0 es) (RunTimer i)) \<noteq> [] \<longrightarrow>
        (\<exists>t' q. last_input (now p0) es = Some (t', q) \<and> 2 \<le> length q
           \<and> t' + 500 \<le> now (run R E p0 es)
           \<and> issued (run R E p0 es) (step R E (run R E p0 es) (RunTimer i))
               = [search_request E q (run R E p0 es)]))"
    using input_short(2,3,4) [OF inv, of v] input_long(2,3) [OF inv, of v]
      run_timer_issued [OF inv, of R E i]
    by (cases "length (trim v) < 2") (simp_all add: issued_def)
qed

lemma length_ascii: "length (ascii s) = length s"
  by (simp add: ascii_def)

lemma trim_examples:
  "trim (ascii ''ap'') = ascii ''ap''" "trim (ascii '' appl '') = ascii ''appl''"
  "trim (ascii '' a '') = ascii ''a''"
  by (simp_all add: trim_def ascii_def is_space_def)

lemma well_formed_appl: "well_formed (ascii ''appl'')" "well_formed (ascii ''ap'')"
  by (simp_all add: ascii_def is_high_def is_low_def)

lemma dashboard0_ready: "search_inv (now dashboard0) [] dashboard0"
  by (simp add: search_inv_def dashboard0_def)

lemma typing_run:
  "timers (run Part003 no_foods dashboard0 typing) = [(1, 700, SearchFood (ascii ''appl''))]"
  "now (run Part003 no_foods dashboard0 typing) = 700"
  "requests (run Part003 no_foods dashboard0 typing) = []"
  by (simp_all add: run_def typing_def onSearchInput_def Let_def trim_examples clearTimeout_def
      setTimeout_def set_doc_def dashboard0_def length_ascii)

theorem C9_debounced_search_witness:
  "search_inv (now dashboard0) [] dashboard0
   \<and> last_input (now dashboard0) typing = Some (200, ascii ''appl'')
   \<and> issued (run Part003 no_foods dashboard0 typing)
        (step Part003 no_foods (run Part003 no_foods dashboard0 typing) (RunTimer 1))
       = [search_request no_foods (ascii ''appl'') (run Part003 no_foods dashboard0 typing)]
   \<and> issued (run Part003 no_foods dashboard0 typing)
        (step Part003 no_foods (run Part003 no_foods dashboard0 typing) (RunTimer 0)) = []
   \<and> pending_searches (step Part003 no_foods (run Part003 no_foods dashboard0 typing)
        (Input (ascii '' a ''))) = []"
proof -
  have r: "issued (run Part003 no_foods dashboard0 typing)
        (step Part003 no_foods (run Part003 no_foods dashboard0 typing) (RunTimer 1))
       = [search_request no_foods (ascii ''appl'') (run Part003 no_foods dashboard0 typing)]"
    by (simp add: issued_def run_timer_def typing_run searchFood_frame well_formed_appl
        search_request_def api_request_def)
  have l: "last_input (now dashboard0) typing = Some (200, ascii ''appl'')"
    by (simp add: typing_def trim_examples dashboard0_def)
  have z: "issued (run Part003 no_foods dashboard0 typing)
        (step Part003 no_foods (run Part003 no_foods dashboard0 typing) (RunTimer 0)) = []"
    by (simp add: issued_def run_timer_def typing_run)
  show ?thesis
    using C9_debounced_search [of dashboard0 Part003 no_foods typing "ascii '' a ''" 0 1]
      dashboard0_ready r l z
    by (simp add: trim_examples length_ascii)
qed

lemma get_prop_readable: "readable v \<Longrightarrow> \<exists>x. get_prop v k = Inr x"
  by (cases v) simp_all

lemma show_preview_doc:
  "doc (show_preview s p) (''previewCalories'', ''textContent'') = Some (OfValue (shown s ''calories''))"
  "doc (show_preview s p) (''previewProtein'', ''textContent'') = Some (OfValue (shown s ''protein''))"
  "doc (show_preview s p) (''previewCarbs'', ''textContent'') = Some (OfValue (shown s ''carbohydrate''))"
  "doc (show_preview s p) (''previewFat'', ''textContent'') = Some (OfValue (shown s ''fat''))"
  by (simp_all add: show_preview_def set_doc_def)

lemma preview_of_serving:
  assumes "get_prop foodData ''food'' = Inr food" "truthy food"
    "get_prop food ''servings'' = Inr servings" "truthy servings"
    "get_prop servings ''serving'' = Inr sv"
  shows "displayNutritionPreview foodData p
     = (let serving = (case sv of JArr xs \<Rightarrow> first_element xs | _ \<Rightarrow> sv)
        in if readable serving then Inr (show_preview serving p) else Inl TypeError)"
proof -
  let ?s = "case sv of JArr xs \<Rightarrow> first_element xs | _ \<Rightarrow> sv"
  have "bindE (get_prop ?s ''calories'') (\<lambda>c. Inr (show_preview ?s p))
      = (if readable ?s then Inr (show_preview ?s p) else Inl TypeError)"
    by (cases ?s) (simp_all add: bindE_def)
  with assms show ?thesis
    by (simp add: displayNutritionPreview_def bindE_def Let_def)
qed

text \<open>
  C4, as amended. For food details whose \<open>food\<close> and \<open>food.servings\<close> are truthy:
  when \<open>servings.serving\<close> is a non-empty array whose first element is neither
  undefined nor null, the four preview fields are written from that element; when it
  is not an array and is neither undefined nor null, they are written from it. Each
  field gets the serving's value when that is truthy and the string \<open>0\<close> when it is
  missing or falsy. When \<open>food\<close> or \<open>food.servings\<close> is falsy the page is left as it
  was. (In the remaining cases the function throws, before any field is written.)
\<close>

theorem C4_displayNutritionPreview:
  "(get_prop foodData ''food'' = Inr food \<and> truthy food
      \<and> get_prop food ''servings'' = Inr servings \<and> truthy servings
      \<and> get_prop servings ''serving'' = Inr (JArr (s # rest)) \<and> readable s \<longrightarrow>
      displayNutritionPreview foodData p = Inr (show_preview s p))
   \<and> (get_prop foodData ''food'' = Inr food \<and> truthy food
      \<and> get_prop food ''servings'' = Inr servings \<and> truthy servings
      \<and> get_prop servings ''serving'' = Inr sv \<and> \<not> isArray sv \<and> readable sv \<longrightarrow>
      displayNutritionPreview foodData p = Inr (show_preview sv p))
   \<and> doc (show_preview x p) (''previewCalories'', ''textContent'')
        = Some (OfValue (shown x ''calories''))
   \<and> doc (show_preview x p) (''previewProtein'', ''textContent'')
        = Some (OfValue (shown x ''protein''))
   \<and> doc (show_preview x p) (''previewCarbs'', ''textContent'')
        = Some (OfValue (shown x ''carbohydrate''))
   \<and> doc (show_preview x p) (''previewFat'', ''textContent'')
        = Some (OfValue (shown x ''fat''))
   \<and> (readable x \<and> get_prop x k = Inr v \<longrightarrow>
        shown x k = (if truthy v then v else JStr (ascii ''0'')))
   \<and> (get_prop foodData ''food'' = Inr food
        \<and> (\<not> truthy food \<or> (get_prop food ''servings'' = Inr servings \<and> \<not> truthy servings)) \<longrightarrow>
      displayNutritionPreview foodData p = Inr p)"
proof (intro conjI impI)
  assume "get_prop foodData ''food'' = Inr food \<and> truthy food
      \<and> get_prop food ''servings'' = Inr servings \<and> truthy servings
      \<and> get_prop servings ''serving'' = Inr (JArr (s # rest)) \<and> readable s"
  then show "displayNutritionPreview foodData p = Inr (show_preview s p)"
    using preview_of_serving [of foodData food servings "JArr (s # rest)" p] by simp
next
  assume "get_prop foodData ''food'' = Inr food \<and> truthy food
      \<and> get_prop food ''servings'' = Inr servings \<and> truthy servings
      \<and> get_prop servings ''serving'' = Inr sv \<and> \<not> isArray sv \<and> readable sv"
  then show "displayNutritionPreview foodData p = Inr (show_preview sv p)"
    using preview_of_serving [of foodData food servings sv p] by (cases sv) simp_all
next
  assume "readable x \<and> get_prop x k = Inr v"
  then show "shown x k = (if truthy v then v else JStr (ascii ''0''))"
    by (simp add: shown_def js_or_def)
next
  assume "get_prop foodData ''food'' = Inr food
        \<and> (\<not> truthy food \<or> (get_prop food ''servings'' = Inr servings \<and> \<not> truthy servings))"
  then show "displayNutritionPreview foodData p = Inr p"
    by (auto simp add: displayNutritionPreview_def bindE_def split: sum.splits)
qed (simp_all add: show_preview_doc)

lemma food_with_props:
  "get_prop (food_with servings) ''food'' = Inr (JObj [(ascii ''servings'', servings)])"
  "get_prop (JObj [(ascii ''servings'', servings)]) ''servings'' = Inr servings"
  by (simp_all add: food_with_def)

theorem C4_displayNutritionPreview_witness:
  "displayNutritionPreview two_servings dashboard0
     = Inr (show_preview
         (JObj [(ascii ''calories'', JStr (ascii ''95'')), (ascii ''protein'', JStr (ascii ''0.5'')),
                (ascii ''fat'', JStr (ascii ''0.3''))]) dashboard0)
   \<and> shown (JObj [(ascii ''calories'', JStr (ascii ''95'')), (ascii ''protein'', JStr (ascii ''0.5'')),
                (ascii ''fat'', JStr (ascii ''0.3''))]) ''calories'' = JStr (ascii ''95'')
   \<and> shown (JObj [(ascii ''calories'', JStr (ascii ''95'')), (ascii ''protein'', JStr (ascii ''0.5'')),
                (ascii ''fat'', JStr (ascii ''0.3''))]) ''carbohydrate'' = JStr (ascii ''0'')
   \<and> \<not> isArray (JObj [(ascii ''calories'', JStr (ascii ''120''))])
   \<and> displayNutritionPreview one_serving dashboard0
     = Inr (show_preview (JObj [(ascii ''calories'', JStr (ascii ''120''))]) dashboard0)
   \<and> displayNutritionPreview (JObj [(ascii ''food'', JNull)]) dashboard0 = Inr dashboard0"
  using C4_displayNutritionPreview [of two_servings
      "JObj [(ascii ''servings'', JObj [(ascii ''serving'',
         JArr [JObj [(ascii ''calories'', JStr (ascii ''95'')), (ascii ''protein'', JStr (ascii ''0.5'')),
                     (ascii ''fat'', JStr (ascii ''0.3''))],
               JObj [(ascii ''calories'', JStr (ascii ''52''))]])])]"
      "JObj [(ascii ''serving'',
         JArr [JObj [(ascii ''calories'', JStr (ascii ''95'')), (ascii ''protein'', JStr (ascii ''0.5'')),
                     (ascii ''fat'', JStr (ascii ''0.3''))],
               JObj [(ascii ''calories'', JStr (ascii ''52''))]])]"
      "JObj [(ascii ''calories'', JStr (ascii ''95'')), (ascii ''protein'', JStr (ascii ''0.5'')),
             (ascii ''fat'', JStr (ascii ''0.3''))]"
      "[JObj [(ascii ''calories'', JStr (ascii ''52''))]]" dashboard0 JNull
      "JObj [(ascii ''calories'', JStr (ascii ''95'')), (ascii ''protein'', JStr (ascii ''0.5'')),
             (ascii ''fat'', JStr (ascii ''0.3''))]" "''carbohydrate''" JUndefined]
    C4_displayNutritionPreview [where foodData = one_serving
      and food = "JObj [(ascii ''servings'',
                    JObj [(ascii ''serving'', JObj [(ascii ''calories'', JStr (ascii ''120''))])])]"
      and servings = "JObj [(ascii ''serving'', JObj [(ascii ''calories'', JStr (ascii ''120''))])]"
      and sv = "JObj [(ascii ''calories'', JStr (ascii ''120''))]" and p = dashboard0]
    C4_displayNutritionPreview [where foodData = "JObj [(ascii ''food'', JNull)]"
      and food = JNull and p = dashboard0]
  by (simp add: two_servings_def one_serving_def food_with_def ascii_inj ascii_eq_Nil shown_def js_or_def)

text \<open>
  The claim as stated fails when \<open>servings\<close> is present and \<open>serving\<close> is an empty
  array, or is absent: the read of \<open>serving.calories\<close> throws a TypeError and no
  field is written. And a value that is present but falsy, such as the empty string,
  is replaced by \<open>0\<close> as a missing one is.
\<close>

theorem C4_no_first_serving:
  "get_prop no_servings ''food'' = Inr (JObj [(ascii ''servings'', JObj [(ascii ''serving'', JArr [])])])
   \<and> truthy (JObj [(ascii ''servings'', JObj [(ascii ''serving'', JArr [])])])
   \<and> truthy (JObj [(ascii ''serving'', JArr [])])
   \<and> isArray (JArr [])
   \<and> displayNutritionPreview no_servings dashboard0 = Inl TypeError
   \<and> displayNutritionPreview serving_absent dashboard0 = Inl TypeError
   \<and> (\<exists>q. displayNutritionPreview blank_calories dashboard0 = Inr q
          \<and> doc q (''previewCalories'', ''textContent'') = Some (OfValue (JStr (ascii ''0''))))"
  by (simp add: no_servings_def serving_absent_def blank_calories_def food_with_def
      displayNutritionPreview_def bindE_def ascii_inj show_preview_doc shown_def js_or_def)

lemma macros_10_20_5: "js_add (js_add (fl 40) (fl 80)) (fl 45) = Fin 165"
  by code_simp

lemma fl_zero: "fl 0 = Fin 0"
  by (simp add: fl_def)

lemma first_chart:
  "createMacrosChart E (JNum (Fin 10)) (JNum (Fin 20)) (JNum (Fin 5)) dashboard0
     = dashboard0\<lparr>macrosChart := Some 0, live_charts := [(0, ''macrosChart'')], next_chart := 1\<rparr>"
  by (simp add: createMacrosChart_def macros_10_20_5 dashboard0_def new_Chart_def)

lemma closeAnalysisModal_resets:
  "macrosChart (closeAnalysisModal p) = None" "caloriesChart (closeAnalysisModal p) = None"
  "handle_ok (macrosChart (closeAnalysisModal p)) ''macrosChart'' (closeAnalysisModal p)"
  "handle_ok (caloriesChart (closeAnalysisModal p)) ''caloriesChart'' (closeAnalysisModal p)"
  by (simp_all add: closeAnalysisModal_def Let_def destroy_def set_doc_def handle_ok_def
      split: option.splits)

lemma createCaloriesChart_no_days:
  assumes "caloriesChart p = Some c"
  shows "caloriesChart (snd (createCaloriesChart (JObj []) p)) = Some c"
    and "c \<notin> set (displayed ''caloriesChart'' (snd (createCaloriesChart (JObj []) p)))"
  using assms
  by (auto simp add: createCaloriesChart_def Let_def destroy_def draw_placeholder_def
      displayed_def)

text \<open>
  C3 does not hold of the code. After \<open>createMacrosChart(10, 20, 5)\<close> the handle
  \<open>macrosChart\<close> is the chart displayed on its canvas. A following
  \<open>createMacrosChart(0, 0, 0)\<close> destroys that chart, draws the placeholder and
  returns without resetting the handle: \<open>macrosChart\<close> is then neither null nor a
  displayed chart, against the invariant. (\<open>closeAnalysisModal\<close> does reset each
  handle after destroying its chart; \<open>createCaloriesChart\<close> returns early in the
  same way when there is no day to plot.)
\<close>

theorem C3_stale_handle_after_empty_data:
  "handle_ok (macrosChart (createMacrosChart (answering NetworkError) (JNum (Fin 10)) (JNum (Fin 20))
       (JNum (Fin 5)) dashboard0)) ''macrosChart''
     (createMacrosChart (answering NetworkError) (JNum (Fin 10)) (JNum (Fin 20)) (JNum (Fin 5))
        dashboard0)
   \<and> macrosChart (createMacrosChart (answering NetworkError) (JNum (Fin 0)) (JNum (Fin 0)) (JNum (Fin 0))
       (createMacrosChart (answering NetworkError) (JNum (Fin 10)) (JNum (Fin 20)) (JNum (Fin 5))
          dashboard0)) = Some 0
   \<and> displayed ''macrosChart''
       (createMacrosChart (answering NetworkError) (JNum (Fin 0)) (JNum (Fin 0)) (JNum (Fin 0))
       (createMacrosChart (answering NetworkError) (JNum (Fin 10)) (JNum (Fin 20)) (JNum (Fin 5))
          dashboard0)) = []
   \<and> \<not> handle_ok (Some 0) ''macrosChart''
       (createMacrosChart (answering NetworkError) (JNum (Fin 0)) (JNum (Fin 0)) (JNum (Fin 0))
       (createMacrosChart (answering NetworkError) (JNum (Fin 10)) (JNum (Fin 20)) (JNum (Fin 5))
          dashboard0))"
  unfolding first_chart
  by (simp add: createMacrosChart_def fl_zero destroy_def draw_placeholder_def displayed_def
      handle_ok_def)




















end
